theory Spec2Isabelle
  imports Main "HOL-Library.Word"
begin

unbundle bit_operations_syntax

section \<open>Addresses and endpoints\<close>

text \<open>
  \<^verbatim>\<open>boost::asio::ip::address\<close> is a tagged union of an IPv4 and an IPv6 address. An IPv4
  address is its 32-bit value; an IPv6 address is its 128-bit value together with its scope
  id, and both take part in its equality. \<^verbatim>\<open>address_v4::any()\<close> and
  \<^verbatim>\<open>address_v6::any()\<close> are the all-zero addresses.
\<close>

type_synonym address_v4 = "32 word"
type_synonym address_v6 = "128 word \<times> nat"

datatype address = V4 address_v4 | V6 address_v6

fun is_v4 :: "address \<Rightarrow> bool" where
  "is_v4 (V4 _) = True"
| "is_v4 (V6 _) = False"

fun is_v6 :: "address \<Rightarrow> bool" where
  "is_v6 (V4 _) = False"
| "is_v6 (V6 _) = True"

definition address_v4_any :: address_v4 where
  "address_v4_any = 0"

definition address_v6_any :: address_v6 where
  "address_v6_any = (0, 0)"

text \<open>\<^verbatim>\<open>tcp::Endpoint\<close>: an address and a 16-bit port.\<close>

datatype Endpoint = Endpoint (address: address) (port: "16 word")

text \<open>
  \<^verbatim>\<open>NetworkInterfaceInfo\<close>: of one network interface, the two address vectors that
  \<^verbatim>\<open>prohibitAllIpv4Endpoints\<close> and \<^verbatim>\<open>prohibitAllIpv6Endpoints\<close> read.
\<close>

record NetworkInterfaceInfo =
  ipv4Addresses :: "address_v4 list"
  ipv6Addresses :: "address_v6 list"

section \<open>What the factory takes from its libraries\<close>

text \<open>
  \<^verbatim>\<open>ConfigFile::Error\<close> carries a message.
\<close>

datatype ConfigFile_Error = Error string

text \<open>
  The functions of Boost and of the daemon's core that \<^verbatim>\<open>tcp-factory.cpp\<close> calls and
  that are defined in other files are parameters of the model, collected in one record:
  \<^item> \<open>from_string\<close>: \<^verbatim>\<open>ip::address::from_string\<close>, \<open>None\<close> where it throws;
  \<^item> \<open>lexical_cast_uint16\<close>: \<^verbatim>\<open>boost::lexical_cast<uint16_t>\<close>, \<open>None\<close> where it throws;
  \<^item> \<open>is_multicast\<close>, \<open>is_loopback\<close>: the predicates of \<^verbatim>\<open>ip::address\<close>;
  \<^item> \<open>endpoint_less\<close>: \<^verbatim>\<open>operator<\<close> on endpoints, the key order of the
    \<^verbatim>\<open>std::map\<close> \<open>m_channels\<close>;
  \<^item> \<open>listNetworkInterfaces\<close>: the snapshot of the network interfaces;
  \<^item> \<open>parseYesNo\<close>, \<open>parseNumber_uint16\<close>: \<^verbatim>\<open>ConfigFile::parseYesNo\<close> and
    \<^verbatim>\<open>ConfigFile::parseNumber<uint16_t>\<close>, applied to a key/value pair and the name of the
    section, \<open>Inl\<close> the \<^verbatim>\<open>ConfigFile::Error\<close> they throw on a malformed value.
\<close>

record platform =
  from_string :: "string \<Rightarrow> address option"
  lexical_cast_uint16 :: "string \<Rightarrow> 16 word option"
  is_multicast :: "address \<Rightarrow> bool"
  is_loopback :: "address \<Rightarrow> bool"
  endpoint_less :: "Endpoint \<Rightarrow> Endpoint \<Rightarrow> bool"
  listNetworkInterfaces :: "NetworkInterfaceInfo list"
  parseYesNo :: "string \<times> string \<Rightarrow> string \<Rightarrow> ConfigFile_Error + bool"
  parseNumber_uint16 :: "string \<times> string \<Rightarrow> string \<Rightarrow> ConfigFile_Error + 16 word"

section \<open>The state of a TcpFactory\<close>

text \<open>
  Channels are shared objects (\<^verbatim>\<open>shared_ptr<TcpChannel>\<close>): the model keeps them in a store
  addressed by references, and \<^verbatim>\<open>make_shared\<close> takes the next unused reference.
  Callbacks are opaque identifiers.
\<close>

type_synonym chan_ref = nat
type_synonym FaceCreatedCallback = nat
type_synonym FaceCreationFailedCallback = nat

text \<open>
  Modelled from the spec: the class \<^verbatim>\<open>TcpChannel\<close> is declared and defined in files of
  the daemon other than \<^verbatim>\<open>tcp-factory.cpp\<close>. A Channel owns one local Endpoint; it is
  created not listening, and \<^verbatim>\<open>listen\<close> makes it listening and registers the
  inbound-face sink.
\<close>

record TcpChannel =
  m_localEndpoint :: Endpoint
  isListening :: bool
  onFaceCreated :: "FaceCreatedCallback option"

definition make_TcpChannel :: "Endpoint \<Rightarrow> TcpChannel" where
  "make_TcpChannel endpoint =
     \<lparr>m_localEndpoint = endpoint, isListening = False, onFaceCreated = None\<rparr>"

text \<open>
  \<open>m_channels\<close> is a \<^verbatim>\<open>std::map\<close> from Endpoint to channel: an association list in
  iteration order. \<open>m_prohibitedEndpoints\<close> is a \<^verbatim>\<open>std::set\<close> of Endpoints, and
  \<open>providedSchemes\<close> a \<^verbatim>\<open>std::set\<close> of strings.
\<close>

record TcpFactory =
  m_channels :: "(Endpoint \<times> chan_ref) list"
  m_prohibitedEndpoints :: "Endpoint set"
  providedSchemes :: "string set"
  channel_store :: "chan_ref \<Rightarrow> TcpChannel"
  next_ref :: chan_ref

text \<open>
  \<^verbatim>\<open>m[k] = v\<close>: the value of an existing key is replaced; a new key is inserted in front
  of the first greater key.
\<close>

fun map_assign :: "('k \<Rightarrow> 'k \<Rightarrow> bool) \<Rightarrow> 'k \<Rightarrow> 'v \<Rightarrow> ('k \<times> 'v) list \<Rightarrow> ('k \<times> 'v) list" where
  "map_assign lt k v [] = [(k, v)]"
| "map_assign lt k v ((k', v') # rest) =
     (if k = k' then (k, v) # rest
      else if lt k k' then (k, v) # (k', v') # rest
      else (k', v') # map_assign lt k v rest)"

text \<open>\<^verbatim>\<open>TcpChannel::listen(onFaceCreated, nullptr)\<close> on the channel behind a reference.\<close>

definition listen :: "chan_ref \<Rightarrow> FaceCreatedCallback \<Rightarrow> TcpFactory \<Rightarrow> TcpFactory" where
  "listen channel cb st =
     st\<lparr>channel_store := (channel_store st)
          (channel := (channel_store st channel)\<lparr>isListening := True, onFaceCreated := Some cb\<rparr>)\<rparr>"

section \<open>Endpoint prohibition\<close>

text \<open>
  \<^verbatim>\<open>prohibitEndpoint\<close> and its two expansion helpers call each other. The loops over the
  interfaces and their addresses are folds that pass the factory along.
\<close>

function prohibitEndpoint :: "platform \<Rightarrow> Endpoint \<Rightarrow> TcpFactory \<Rightarrow> TcpFactory"
  and prohibitAllIpv4Endpoints :: "platform \<Rightarrow> 16 word \<Rightarrow> TcpFactory \<Rightarrow> TcpFactory"
  and prohibitAllIpv6Endpoints :: "platform \<Rightarrow> 16 word \<Rightarrow> TcpFactory \<Rightarrow> TcpFactory"
where
  "prohibitEndpoint pf endpoint st =
     (let st' =
        (if is_v4 (address endpoint) \<and> address endpoint = V4 address_v4_any
         then prohibitAllIpv4Endpoints pf (port endpoint) st
         else if is_v6 (address endpoint) \<and> address endpoint = V6 address_v6_any
         then prohibitAllIpv6Endpoints pf (port endpoint) st
         else st)
      in st'\<lparr>m_prohibitedEndpoints := insert endpoint (m_prohibitedEndpoints st')\<rparr>)"
| "prohibitAllIpv4Endpoints pf p st =
     fold (\<lambda>nic. fold (\<lambda>addr s.
             if addr \<noteq> address_v4_any then prohibitEndpoint pf (Endpoint (V4 addr) p) s else s)
           (ipv4Addresses nic))
       (listNetworkInterfaces pf) st"
| "prohibitAllIpv6Endpoints pf p st =
     fold (\<lambda>nic. fold (\<lambda>addr s.
             if addr \<noteq> address_v6_any then prohibitEndpoint pf (Endpoint (V6 addr) p) s else s)
           (ipv6Addresses nic))
       (listNetworkInterfaces pf) st"
  by pat_completeness auto
termination
  by (relation "measure (\<lambda>c. case c of
         Inl (pf, e, st) \<Rightarrow>
           (if address e = V4 address_v4_any \<or> address e = V6 address_v6_any then 2 else 0)
       | Inr _ \<Rightarrow> 1)") auto

declare prohibitEndpoint.simps [simp del]
declare prohibitAllIpv4Endpoints.simps [simp del]
declare prohibitAllIpv6Endpoints.simps [simp del]

section \<open>The channel registry\<close>

definition findChannel :: "TcpFactory \<Rightarrow> Endpoint \<Rightarrow> chan_ref option" where
  "findChannel st localEndpoint = map_of (m_channels st) localEndpoint"

definition createChannel :: "platform \<Rightarrow> Endpoint \<Rightarrow> TcpFactory \<Rightarrow> chan_ref \<times> TcpFactory" where
  "createChannel pf endpoint st =
     (case findChannel st endpoint of
        Some channel \<Rightarrow> (channel, st)
      | None \<Rightarrow>
          (let channel = next_ref st;
               st1 = st\<lparr>channel_store := (channel_store st)(channel := make_TcpChannel endpoint),
                        next_ref := Suc (next_ref st)\<rparr>;
               st2 = st1\<lparr>m_channels :=
                          map_assign (endpoint_less pf) endpoint channel (m_channels st1)\<rparr>;
               st3 = prohibitEndpoint pf endpoint st2
           in (channel, st3)))"

section \<open>Configuration\<close>

text \<open>
  A configuration section is the list of its key/value pairs, in file order. The
  \<^verbatim>\<open>ConfigContext\<close> carries the dry-run flag and the \<^verbatim>\<open>addFace\<close> callback.
\<close>

type_synonym ConfigSection = "(string \<times> string) list"

record ConfigContext =
  isDryRun :: bool
  addFace :: FaceCreatedCallback

text \<open>
  The body of the loop of \<^verbatim>\<open>processConfig\<close> over the pairs of the section: it updates
  one of the four locals \<^verbatim>\<open>wantListen\<close>, \<^verbatim>\<open>port\<close>, \<^verbatim>\<open>enableV4\<close>, \<^verbatim>\<open>enableV6\<close>, or
  throws a \<^verbatim>\<open>ConfigFile::Error\<close>.
\<close>

definition processConfig_body ::
  "platform \<Rightarrow> string \<times> string \<Rightarrow> bool \<times> 16 word \<times> bool \<times> bool
     \<Rightarrow> ConfigFile_Error + bool \<times> 16 word \<times> bool \<times> bool" where
  "processConfig_body pf pair vars =
     (case vars of (wantListen, portNum, enableV4, enableV6) \<Rightarrow>
      (let key = fst pair in
       if key = ''listen'' then
         (case parseYesNo pf pair ''face_system.tcp'' of
            Inl e \<Rightarrow> Inl e
          | Inr b \<Rightarrow> Inr (b, portNum, enableV4, enableV6))
       else if key = ''port'' then
         (case parseNumber_uint16 pf pair ''face_system.tcp'' of
            Inl e \<Rightarrow> Inl e
          | Inr n \<Rightarrow> Inr (wantListen, n, enableV4, enableV6))
       else if key = ''enable_v4'' then
         (case parseYesNo pf pair ''face_system.tcp'' of
            Inl e \<Rightarrow> Inl e
          | Inr b \<Rightarrow> Inr (wantListen, portNum, b, enableV6))
       else if key = ''enable_v6'' then
         (case parseYesNo pf pair ''face_system.tcp'' of
            Inl e \<Rightarrow> Inl e
          | Inr b \<Rightarrow> Inr (wantListen, portNum, enableV4, b))
       else Inl (Error (''Unrecognized option face_system.tcp.'' @ key))))"

text \<open>The loop stops at the first exception.\<close>

fun processConfig_loop ::
  "platform \<Rightarrow> ConfigSection \<Rightarrow> bool \<times> 16 word \<times> bool \<times> bool
     \<Rightarrow> ConfigFile_Error + bool \<times> 16 word \<times> bool \<times> bool" where
  "processConfig_loop pf [] vars = Inr vars"
| "processConfig_loop pf (pair # rest) vars =
     (case processConfig_body pf pair vars of
        Inl e \<Rightarrow> Inl e
      | Inr vars' \<Rightarrow> processConfig_loop pf rest vars')"

text \<open>
  \<^verbatim>\<open>processConfig\<close> returns the exception it throws, if any, together with the factory as
  the call leaves it. The log messages are not part of the model.
\<close>

definition processConfig ::
  "platform \<Rightarrow> ConfigSection option \<Rightarrow> ConfigContext \<Rightarrow> TcpFactory
     \<Rightarrow> (ConfigFile_Error + unit) \<times> TcpFactory" where
  "processConfig pf configSection ctx st =
     (case configSection of
        None \<Rightarrow> (Inr (), st)
      | Some section \<Rightarrow>
          (case processConfig_loop pf section (True, 6363, True, True) of
             Inl e \<Rightarrow> (Inl e, st)
           | Inr (wantListen, portNum, enableV4, enableV6) \<Rightarrow>
               if \<not> enableV4 \<and> \<not> enableV6 then
                 (Inl (Error (''IPv4 and IPv6 TCP channels have been disabled. Remove '' @
                              ''face_system.tcp section to disable '' @
                              ''TCP channels or enable at least one channel type.'')), st)
               else if \<not> isDryRun ctx then
                 (let st1 = st\<lparr>providedSchemes := insert ''tcp'' (providedSchemes st)\<rparr>;
                      st2 =
                        (if enableV4 then
                           (let endpoint = Endpoint (V4 address_v4_any) portNum;
                                (v4Channel, s) = createChannel pf endpoint st1;
                                s' = (if wantListen \<and> \<not> isListening (channel_store s v4Channel)
                                      then listen v4Channel (addFace ctx) s else s)
                            in s'\<lparr>providedSchemes := insert ''tcp4'' (providedSchemes s')\<rparr>)
                         else st1);
                      st3 =
                        (if enableV6 then
                           (let endpoint = Endpoint (V6 address_v6_any) portNum;
                                (v6Channel, s) = createChannel pf endpoint st2;
                                s' = (if wantListen \<and> \<not> isListening (channel_store s v6Channel)
                                      then listen v6Channel (addFace ctx) s else s)
                            in s'\<lparr>providedSchemes := insert ''tcp6'' (providedSchemes s')\<rparr>)
                         else st2)
                  in (Inr (), st3))
               else (Inr (), st)))"

section \<open>Creating an outbound face\<close>

datatype FacePersistency =
  FACE_PERSISTENCY_PERSISTENT | FACE_PERSISTENCY_ON_DEMAND | FACE_PERSISTENCY_PERMANENT

text \<open>Of a \<^verbatim>\<open>FaceUri\<close>, what \<^verbatim>\<open>createFace\<close> reads.\<close>

record FaceUri =
  isCanonical :: bool
  getHost :: string
  getPort :: string

text \<open>
  What a call of \<^verbatim>\<open>createFace\<close> does: the assertion on the remote URI fails, or the failure
  callback is called with a code and a reason, or \<^verbatim>\<open>connect\<close> is called on a channel with
  the endpoint, the persistency, the local-fields flag and both callbacks, or the resolution
  of the endpoint throws. C++ does not fix which of the two conversions of the endpoint runs
  first; the model converts the address first.
\<close>

datatype exception = system_error | bad_lexical_cast

datatype outcome =
    AssertionFailed
  | OnFailure FaceCreationFailedCallback nat string
  | Connect chan_ref Endpoint FacePersistency bool FaceCreatedCallback FaceCreationFailedCallback
  | Throws exception

text \<open>The loop over \<open>m_channels\<close> and the rejection after it.\<close>

fun createFace_loop ::
  "(Endpoint \<times> chan_ref) list \<Rightarrow> Endpoint \<Rightarrow> FacePersistency \<Rightarrow> bool
     \<Rightarrow> FaceCreatedCallback \<Rightarrow> FaceCreationFailedCallback \<Rightarrow> outcome" where
  "createFace_loop [] endpoint persistency wantLocalFieldsEnabled onCreated onFailure =
     OnFailure onFailure 504 ''No channels available to connect''"
| "createFace_loop (i # rest) endpoint persistency wantLocalFieldsEnabled onCreated onFailure =
     (if (is_v4 (address (fst i)) \<and> is_v4 (address endpoint)) \<or>
         (is_v6 (address (fst i)) \<and> is_v6 (address endpoint))
      then Connect (snd i) endpoint persistency wantLocalFieldsEnabled onCreated onFailure
      else createFace_loop rest endpoint persistency wantLocalFieldsEnabled onCreated onFailure)"

definition createFace ::
  "platform \<Rightarrow> TcpFactory \<Rightarrow> FaceUri \<Rightarrow> FaceUri option \<Rightarrow> FacePersistency \<Rightarrow> bool
     \<Rightarrow> FaceCreatedCallback \<Rightarrow> FaceCreationFailedCallback \<Rightarrow> outcome" where
  "createFace pf st remoteUri localUri persistency wantLocalFieldsEnabled onCreated onFailure =
     (if \<not> isCanonical remoteUri then AssertionFailed
      else if localUri \<noteq> None then
        OnFailure onFailure 406 ''Unicast TCP faces cannot be created with a LocalUri''
      else if persistency = FACE_PERSISTENCY_ON_DEMAND then
        OnFailure onFailure 406 ''Outgoing TCP faces do not support on-demand persistency''
      else
        (case from_string pf (getHost remoteUri) of
           None \<Rightarrow> Throws system_error
         | Some addr \<Rightarrow>
             (case lexical_cast_uint16 pf (getPort remoteUri) of
                None \<Rightarrow> Throws bad_lexical_cast
              | Some p \<Rightarrow>
                  (let endpoint = Endpoint addr p in
                   if is_multicast pf (address endpoint) then
                     OnFailure onFailure 406 ''Cannot create multicast TCP faces''
                   else if endpoint \<in> m_prohibitedEndpoints st then
                     OnFailure onFailure 406 ''Requested endpoint is prohibited''
                   else if wantLocalFieldsEnabled \<and> \<not> is_loopback pf (address endpoint) then
                     OnFailure onFailure 406
                       ''Local fields can only be enabled on faces with local scope''
                   else createFace_loop (m_channels st) endpoint persistency
                          wantLocalFieldsEnabled onCreated onFailure))))"

section \<open>The face table\<close>

text \<open>
  Faces are shared objects as well: a store maps a reference to the face behind it. Of a
  \<^verbatim>\<open>Face\<close>, the table reads and writes the id and the two event-subscription lists. A
  subscription is one of the two handlers of the forwarder, bound to a face, or a handler
  of another subscriber.

  A \<^verbatim>\<open>FaceId\<close> is a C++ \<^verbatim>\<open>int\<close>: a 32-bit integer in two's complement. It is a word
  that \<open>sint\<close> reads, and its increment wraps around from 2147483647 to -2147483648, as
  it does in the compiled daemon.
\<close>

type_synonym FaceId = "32 word"
type_synonym face_ref = nat

datatype handler =
  Forwarder_onInterest face_ref | Forwarder_onData face_ref | Other_handler nat

record Face =
  m_id :: FaceId
  onReceiveInterest :: "handler list"
  onReceiveData :: "handler list"

text \<open>
  Modelled from the spec: the forwarding table (\<^verbatim>\<open>Fib\<close>) and its operation
  \<^verbatim>\<open>removeNextHopFromAllEntries\<close> are defined in files of the daemon other than the one
  of the face table. An entry has a name prefix and a next-hop list of faces, and the
  operation drops the face from every next-hop list it appears in.
\<close>

record fib_Entry =
  prefix :: string
  nextHops :: "face_ref list"

definition removeNextHopFromAllEntries :: "fib_Entry list \<Rightarrow> face_ref \<Rightarrow> fib_Entry list" where
  "removeNextHopFromAllEntries fib face =
     map (\<lambda>entry. entry\<lparr>nextHops := filter (\<lambda>hop. hop \<noteq> face) (nextHops entry)\<rparr>) fib"

text \<open>
  The \<^verbatim>\<open>FaceTable\<close> with the objects it reaches: its counter and its map from FaceId to
  face, the store of the faces, and the forwarding table of its forwarder.
\<close>

record FaceTable =
  m_lastFaceId :: FaceId
  m_faces :: "FaceId \<rightharpoonup> face_ref"
  face_store :: "face_ref \<Rightarrow> Face"
  m_fib :: "fib_Entry list"

text \<open>The constructor, given the faces and the forwarding table that exist.\<close>

definition make_FaceTable :: "(face_ref \<Rightarrow> Face) \<Rightarrow> fib_Entry list \<Rightarrow> FaceTable" where
  "make_FaceTable fs fib = \<lparr>m_lastFaceId = 0, m_faces = Map.empty, face_store = fs, m_fib = fib\<rparr>"

definition add :: "face_ref \<Rightarrow> FaceTable \<Rightarrow> FaceTable" where
  "add face t =
     (let faceId = m_lastFaceId t + 1;
          t1 = t\<lparr>m_lastFaceId := faceId\<rparr>;
          t2 = t1\<lparr>face_store := (face_store t1)(face := (face_store t1 face)\<lparr>m_id := faceId\<rparr>)\<rparr>;
          t3 = t2\<lparr>m_faces := (m_faces t2)(faceId \<mapsto> face)\<rparr>;
          t4 = t3\<lparr>face_store := (face_store t3)(face := (face_store t3 face)
                  \<lparr>onReceiveInterest :=
                     onReceiveInterest (face_store t3 face) @ [Forwarder_onInterest face]\<rparr>)\<rparr>
      in t4\<lparr>face_store := (face_store t4)(face := (face_store t4 face)
               \<lparr>onReceiveData := onReceiveData (face_store t4 face) @ [Forwarder_onData face]\<rparr>)\<rparr>)"

text \<open>
  The value of \<^verbatim>\<open>INVALID_FACEID\<close> is declared in a header of the daemon: it is a
  parameter of \<^verbatim>\<open>remove\<close>.
\<close>

definition remove :: "FaceId \<Rightarrow> face_ref \<Rightarrow> FaceTable \<Rightarrow> FaceTable" where
  "remove INVALID_FACEID face t =
     (let faceId = m_id (face_store t face);
          t1 = t\<lparr>m_faces := (m_faces t)(faceId := None)\<rparr>;
          t2 = t1\<lparr>face_store := (face_store t1)(face := (face_store t1 face)\<lparr>m_id := INVALID_FACEID\<rparr>)\<rparr>;
          t3 = t2\<lparr>face_store := (face_store t2)(face := (face_store t2 face)\<lparr>onReceiveInterest := []\<rparr>)\<rparr>;
          t4 = t3\<lparr>face_store := (face_store t3)(face := (face_store t3 face)\<lparr>onReceiveData := []\<rparr>)\<rparr>
      in t4\<lparr>m_fib := removeNextHopFromAllEntries (m_fib t4) face\<rparr>)"

text \<open>
  A sequence of operations on the table, and the FaceIds that its \<^verbatim>\<open>add\<close> calls assign, in
  the order of the calls.
\<close>

datatype FaceTable_op = is_Add: Add face_ref | Remove face_ref

fun run :: "FaceId \<Rightarrow> FaceTable_op list \<Rightarrow> FaceTable \<Rightarrow> FaceId list \<times> FaceTable" where
  "run INVALID_FACEID [] t = ([], t)"
| "run INVALID_FACEID (Add face # ops) t =
     (let t' = add face t;
          (ids, t'') = run INVALID_FACEID ops t'
      in (m_id (face_store t' face) # ids, t''))"
| "run INVALID_FACEID (Remove face # ops) t =
     run INVALID_FACEID ops (remove INVALID_FACEID face t)"

section \<open>Notions that the properties are stated with\<close>

text \<open>
  The local addresses of each family that the snapshot of the interfaces enumerates.
\<close>

definition local_ipv4 :: "platform \<Rightarrow> address_v4 set" where
  "local_ipv4 pf = (\<Union>nic \<in> set (listNetworkInterfaces pf). set (ipv4Addresses nic))"

definition local_ipv6 :: "platform \<Rightarrow> address_v6 set" where
  "local_ipv6 pf = (\<Union>nic \<in> set (listNetworkInterfaces pf). set (ipv6Addresses nic))"

text \<open>
  \<^verbatim>\<open>prohibitEndpoint\<close> with a bound on the depth of its recursion: each nested call of
  \<^verbatim>\<open>prohibitEndpoint\<close> takes one unit of fuel, and \<open>None\<close> says that the fuel did not
  suffice.
\<close>

fun prohibitEndpoint_fuel :: "nat \<Rightarrow> platform \<Rightarrow> Endpoint \<Rightarrow> TcpFactory \<Rightarrow> TcpFactory option"
  and prohibitAllIpv4Endpoints_fuel :: "nat \<Rightarrow> platform \<Rightarrow> 16 word \<Rightarrow> TcpFactory \<Rightarrow> TcpFactory option"
  and prohibitAllIpv6Endpoints_fuel :: "nat \<Rightarrow> platform \<Rightarrow> 16 word \<Rightarrow> TcpFactory \<Rightarrow> TcpFactory option"
where
  "prohibitEndpoint_fuel 0 pf endpoint st = None"
| "prohibitEndpoint_fuel (Suc n) pf endpoint st =
     (case (if is_v4 (address endpoint) \<and> address endpoint = V4 address_v4_any
            then prohibitAllIpv4Endpoints_fuel n pf (port endpoint) st
            else if is_v6 (address endpoint) \<and> address endpoint = V6 address_v6_any
            then prohibitAllIpv6Endpoints_fuel n pf (port endpoint) st
            else Some st) of
        None \<Rightarrow> None
      | Some st' \<Rightarrow> Some (st'\<lparr>m_prohibitedEndpoints := insert endpoint (m_prohibitedEndpoints st')\<rparr>))"
| "prohibitAllIpv4Endpoints_fuel n pf p st =
     fold (\<lambda>nic. fold (\<lambda>addr r.
             case r of
               None \<Rightarrow> None
             | Some s \<Rightarrow>
                 if addr \<noteq> address_v4_any then prohibitEndpoint_fuel n pf (Endpoint (V4 addr) p) s
                 else Some s)
           (ipv4Addresses nic))
       (listNetworkInterfaces pf) (Some st)"
| "prohibitAllIpv6Endpoints_fuel n pf p st =
     fold (\<lambda>nic. fold (\<lambda>addr r.
             case r of
               None \<Rightarrow> None
             | Some s \<Rightarrow>
                 if addr \<noteq> address_v6_any then prohibitEndpoint_fuel n pf (Endpoint (V6 addr) p) s
                 else Some s)
           (ipv6Addresses nic))
       (listNetworkInterfaces pf) (Some st)"

text \<open>
  The rejection gates of \<^verbatim>\<open>createFace\<close> in their fixed order, with what it means for a
  request to violate each. Gates 4, 5 and 6 are about the resolved endpoint: a request whose
  remote host or port does not resolve violates none of them.
\<close>

datatype gate = Gate1 | Gate2 | Gate4 | Gate5 | Gate6

fun gate_number :: "gate \<Rightarrow> nat" where
  "gate_number Gate1 = 1"
| "gate_number Gate2 = 2"
| "gate_number Gate4 = 4"
| "gate_number Gate5 = 5"
| "gate_number Gate6 = 6"

definition resolve :: "platform \<Rightarrow> FaceUri \<Rightarrow> Endpoint option" where
  "resolve pf remoteUri =
     (case from_string pf (getHost remoteUri) of
        None \<Rightarrow> None
      | Some addr \<Rightarrow>
          (case lexical_cast_uint16 pf (getPort remoteUri) of
             None \<Rightarrow> None
           | Some p \<Rightarrow> Some (Endpoint addr p)))"

fun violates ::
  "platform \<Rightarrow> TcpFactory \<Rightarrow> FaceUri \<Rightarrow> FaceUri option \<Rightarrow> FacePersistency \<Rightarrow> bool \<Rightarrow> gate \<Rightarrow> bool" where
  "violates pf st remoteUri localUri persistency wantLocalFieldsEnabled Gate1 =
     (localUri \<noteq> None)"
| "violates pf st remoteUri localUri persistency wantLocalFieldsEnabled Gate2 =
     (persistency = FACE_PERSISTENCY_ON_DEMAND)"
| "violates pf st remoteUri localUri persistency wantLocalFieldsEnabled Gate4 =
     (case resolve pf remoteUri of
        None \<Rightarrow> False
      | Some endpoint \<Rightarrow> is_multicast pf (address endpoint))"
| "violates pf st remoteUri localUri persistency wantLocalFieldsEnabled Gate5 =
     (case resolve pf remoteUri of
        None \<Rightarrow> False
      | Some endpoint \<Rightarrow> endpoint \<in> m_prohibitedEndpoints st)"
| "violates pf st remoteUri localUri persistency wantLocalFieldsEnabled Gate6 =
     (case resolve pf remoteUri of
        None \<Rightarrow> False
      | Some endpoint \<Rightarrow> wantLocalFieldsEnabled \<and> \<not> is_loopback pf (address endpoint))"

text \<open>The code and the reason with which \<^verbatim>\<open>createFace\<close> rejects at each gate.\<close>

fun rejection :: "gate \<Rightarrow> nat \<times> string" where
  "rejection Gate1 = (406, ''Unicast TCP faces cannot be created with a LocalUri'')"
| "rejection Gate2 = (406, ''Outgoing TCP faces do not support on-demand persistency'')"
| "rejection Gate4 = (406, ''Cannot create multicast TCP faces'')"
| "rejection Gate5 = (406, ''Requested endpoint is prohibited'')"
| "rejection Gate6 = (406, ''Local fields can only be enabled on faces with local scope'')"

text \<open>
  A pair of a configuration section is well-formed when its key is one of the four options
  and its value parses as the type of the option. The setting that a yes/no option ends
  with is the value of the last pair with its key, or the default when the section has no
  such pair.
\<close>

definition well_formed :: "platform \<Rightarrow> string \<times> string \<Rightarrow> bool" where
  "well_formed pf pair =
     (if fst pair = ''listen'' \<or> fst pair = ''enable_v4'' \<or> fst pair = ''enable_v6''
      then \<not> isl (parseYesNo pf pair ''face_system.tcp'')
      else if fst pair = ''port''
      then \<not> isl (parseNumber_uint16 pf pair ''face_system.tcp'')
      else False)"

definition final_yesno :: "platform \<Rightarrow> string \<Rightarrow> bool \<Rightarrow> ConfigSection \<Rightarrow> bool" where
  "final_yesno pf key dflt cfg =
     (case filter (\<lambda>pair. fst pair = key) cfg of
        [] \<Rightarrow> dflt
      | pairs \<Rightarrow> parseYesNo pf (last pairs) ''face_system.tcp'' = Inr True)"

text \<open>Two endpoints are of the same address family.\<close>

definition same_family :: "Endpoint \<Rightarrow> Endpoint \<Rightarrow> bool" where
  "same_family a b = (is_v4 (address a) = is_v4 (address b))"

section \<open>A platform and states to evaluate the model on\<close>

text \<open>
  A platform with two interfaces: the loopback interface with 127.0.0.1 and ::1, and an
  interface with 192.168.0.1 and fe80::1 in scope 2. Its address parser knows four
  literals, its port parser two; its multicast and loopback ranges are those of IPv4
  (224.0.0.0/4, 127.0.0.0/8) and IPv6 (ff00::/8, ::1); its endpoints are ordered by
  address, IPv4 first, and then by port.
\<close>

definition sample_interfaces :: "NetworkInterfaceInfo list" where
  "sample_interfaces =
     [\<lparr>ipv4Addresses = [0x7F000001], ipv6Addresses = [(1, 0)]\<rparr>,
      \<lparr>ipv4Addresses = [0xC0A80001],
       ipv6Addresses = [(0xFE800000000000000000000000000001, 2)]\<rparr>]"

definition sample_from_string :: "string \<Rightarrow> address option" where
  "sample_from_string =
     map_of [(''127.0.0.1'', V4 0x7F000001), (''192.0.2.1'', V4 0xC0000201),
             (''224.0.0.1'', V4 0xE0000001), (''::1'', V6 (1, 0))]"

definition sample_lexical_cast :: "string \<Rightarrow> 16 word option" where
  "sample_lexical_cast = map_of [(''6363'', 6363), (''80'', 80)]"

fun sample_is_multicast :: "address \<Rightarrow> bool" where
  "sample_is_multicast (V4 a) = (0xE0000000 \<le> a \<and> a \<le> 0xEFFFFFFF)"
| "sample_is_multicast (V6 (b, s)) = (0xFF000000000000000000000000000000 \<le> b)"

fun sample_is_loopback :: "address \<Rightarrow> bool" where
  "sample_is_loopback (V4 a) = (0x7F000000 \<le> a \<and> a \<le> 0x7FFFFFFF)"
| "sample_is_loopback (V6 (b, s)) = (b = 1)"

fun sample_address_less :: "address \<Rightarrow> address \<Rightarrow> bool" where
  "sample_address_less (V4 a) (V4 b) = (a < b)"
| "sample_address_less (V4 a) (V6 b) = True"
| "sample_address_less (V6 a) (V4 b) = False"
| "sample_address_less (V6 (a, s)) (V6 (b, t)) = (a < b \<or> (a = b \<and> s < t))"

definition sample_endpoint_less :: "Endpoint \<Rightarrow> Endpoint \<Rightarrow> bool" where
  "sample_endpoint_less x y =
     (sample_address_less (address x) (address y) \<or> (address x = address y \<and> port x < port y))"

definition sample_parseYesNo :: "string \<times> string \<Rightarrow> string \<Rightarrow> ConfigFile_Error + bool" where
  "sample_parseYesNo pair sectionName =
     (if snd pair = ''yes'' then Inr True
      else if snd pair = ''no'' then Inr False
      else Inl (Error (''Invalid value for option '' @ sectionName @ ''.'' @ fst pair)))"

definition sample_parseNumber :: "string \<times> string \<Rightarrow> string \<Rightarrow> ConfigFile_Error + 16 word" where
  "sample_parseNumber pair sectionName =
     (case sample_lexical_cast (snd pair) of
        Some n \<Rightarrow> Inr n
      | None \<Rightarrow> Inl (Error (''Invalid value for option '' @ sectionName @ ''.'' @ fst pair)))"

definition sample_platform :: platform where
  "sample_platform =
     \<lparr>from_string = sample_from_string,
      lexical_cast_uint16 = sample_lexical_cast,
      is_multicast = sample_is_multicast,
      is_loopback = sample_is_loopback,
      endpoint_less = sample_endpoint_less,
      listNetworkInterfaces = sample_interfaces,
      parseYesNo = sample_parseYesNo,
      parseNumber_uint16 = sample_parseNumber\<rparr>"

text \<open>A factory without channels, prohibited endpoints and provided schemes.\<close>

definition empty_factory :: TcpFactory where
  "empty_factory =
     \<lparr>m_channels = [], m_prohibitedEndpoints = {}, providedSchemes = {},
      channel_store = (\<lambda>_. make_TcpChannel (Endpoint (V4 0) 0)), next_ref = 0\<rparr>"

text \<open>A store of faces that are not registered, and a canonical remote URI.\<close>

definition fresh_faces :: "FaceId \<Rightarrow> face_ref \<Rightarrow> Face" where
  "fresh_faces INVALID_FACEID = (\<lambda>_. \<lparr>m_id = INVALID_FACEID, onReceiveInterest = [], onReceiveData = []\<rparr>)"

definition sample_uri :: "string \<Rightarrow> string \<Rightarrow> FaceUri" where
  "sample_uri host portStr = \<lparr>isCanonical = True, getHost = host, getPort = portStr\<rparr>"

section \<open>Endpoint prohibition in closed form\<close>

lemma prohibitEndpoint_concrete:
  "address endpoint \<noteq> V4 address_v4_any \<Longrightarrow> address endpoint \<noteq> V6 address_v6_any \<Longrightarrow>
   prohibitEndpoint pf endpoint st =
     st\<lparr>m_prohibitedEndpoints := insert endpoint (m_prohibitedEndpoints st)\<rparr>"
  by (simp add: prohibitEndpoint.simps)

lemma fold_prohibit:
  "fold (\<lambda>x s. if P x then s\<lparr>m_prohibitedEndpoints := insert (f x) (m_prohibitedEndpoints s)\<rparr> else s) xs st =
     st\<lparr>m_prohibitedEndpoints := m_prohibitedEndpoints st \<union> f ` {x \<in> set xs. P x}\<rparr>"
proof (induction xs arbitrary: st)
  case Nil
  show ?case by simp
next
  case (Cons x xs)
  have "P x \<Longrightarrow> insert (f x) (m_prohibitedEndpoints st) \<union> f ` {y \<in> set xs. P y} =
          m_prohibitedEndpoints st \<union> f ` {y \<in> set (x # xs). P y}"
    by auto
  moreover have "\<not> P x \<Longrightarrow> {y \<in> set xs. P y} = {y \<in> set (x # xs). P y}"
    by auto
  ultimately show ?case
    by (cases "P x") (simp_all add: Cons.IH)
qed

lemma fold_union:
  "fold (\<lambda>x s. s\<lparr>m_prohibitedEndpoints := m_prohibitedEndpoints s \<union> F x\<rparr>) xs st =
     st\<lparr>m_prohibitedEndpoints := m_prohibitedEndpoints st \<union> (\<Union>x \<in> set xs. F x)\<rparr>"
proof (induction xs arbitrary: st)
  case Nil
  show ?case by simp
next
  case (Cons x xs)
  have "m_prohibitedEndpoints st \<union> F x \<union> (\<Union>y \<in> set xs. F y) =
        m_prohibitedEndpoints st \<union> (\<Union>y \<in> set (x # xs). F y)"
    by auto
  then show ?case
    by (simp add: Cons.IH)
qed

lemma fold_fold_prohibit:
  "fold (\<lambda>nic. fold (\<lambda>x s. if P x then s\<lparr>m_prohibitedEndpoints := insert (f x) (m_prohibitedEndpoints s)\<rparr> else s) (g nic)) nics st =
     st\<lparr>m_prohibitedEndpoints := m_prohibitedEndpoints st \<union> f ` {x \<in> (\<Union>nic \<in> set nics. set (g nic)). P x}\<rparr>"
proof -
  have inner: "(\<lambda>nic. fold (\<lambda>x s. if P x then s\<lparr>m_prohibitedEndpoints := insert (f x) (m_prohibitedEndpoints s)\<rparr> else s) (g nic)) =
      (\<lambda>nic s. s\<lparr>m_prohibitedEndpoints := m_prohibitedEndpoints s \<union> f ` {x \<in> set (g nic). P x}\<rparr>)"
    by (intro ext) (rule fold_prohibit)
  have sets: "(\<Union>nic \<in> set nics. f ` {x \<in> set (g nic). P x}) = f ` {x \<in> (\<Union>nic \<in> set nics. set (g nic)). P x}"
    by auto
  show ?thesis
    unfolding inner fold_union sets ..
qed

lemma prohibitAllIpv4Endpoints_eq:
  "prohibitAllIpv4Endpoints pf p st =
     st\<lparr>m_prohibitedEndpoints := m_prohibitedEndpoints st \<union>
          (\<lambda>a. Endpoint (V4 a) p) ` {a \<in> local_ipv4 pf. a \<noteq> address_v4_any}\<rparr>"
proof -
  have "(\<lambda>addr s. if addr \<noteq> address_v4_any then prohibitEndpoint pf (Endpoint (V4 addr) p) s else s) =
        (\<lambda>addr s. if addr \<noteq> address_v4_any
                   then s\<lparr>m_prohibitedEndpoints := insert (Endpoint (V4 addr) p) (m_prohibitedEndpoints s)\<rparr> else s)"
    by (intro ext) (simp add: prohibitEndpoint_concrete)
  then show ?thesis
    by (simp add: prohibitAllIpv4Endpoints.simps fold_fold_prohibit local_ipv4_def)
qed

lemma prohibitAllIpv6Endpoints_eq:
  "prohibitAllIpv6Endpoints pf p st =
     st\<lparr>m_prohibitedEndpoints := m_prohibitedEndpoints st \<union>
          (\<lambda>a. Endpoint (V6 a) p) ` {a \<in> local_ipv6 pf. a \<noteq> address_v6_any}\<rparr>"
proof -
  have "(\<lambda>addr s. if addr \<noteq> address_v6_any then prohibitEndpoint pf (Endpoint (V6 addr) p) s else s) =
        (\<lambda>addr s. if addr \<noteq> address_v6_any
                   then s\<lparr>m_prohibitedEndpoints := insert (Endpoint (V6 addr) p) (m_prohibitedEndpoints s)\<rparr> else s)"
    by (intro ext) (simp add: prohibitEndpoint_concrete)
  then show ?thesis
    by (simp add: prohibitAllIpv6Endpoints.simps fold_fold_prohibit local_ipv6_def)
qed

lemma prohibitEndpoint_any4:
  "prohibitEndpoint pf (Endpoint (V4 address_v4_any) p) st =
     st\<lparr>m_prohibitedEndpoints := insert (Endpoint (V4 address_v4_any) p)
          (m_prohibitedEndpoints st \<union> (\<lambda>a. Endpoint (V4 a) p) ` {a \<in> local_ipv4 pf. a \<noteq> address_v4_any})\<rparr>"
  by (simp add: prohibitEndpoint.simps prohibitAllIpv4Endpoints_eq)

lemma prohibitEndpoint_any6:
  "prohibitEndpoint pf (Endpoint (V6 address_v6_any) p) st =
     st\<lparr>m_prohibitedEndpoints := insert (Endpoint (V6 address_v6_any) p)
          (m_prohibitedEndpoints st \<union> (\<lambda>a. Endpoint (V6 a) p) ` {a \<in> local_ipv6 pf. a \<noteq> address_v6_any})\<rparr>"
  by (simp add: prohibitEndpoint.simps prohibitAllIpv6Endpoints_eq)

lemma prohibitEndpoint_frame:
  "\<exists>S. prohibitEndpoint pf endpoint st = st\<lparr>m_prohibitedEndpoints := insert endpoint (m_prohibitedEndpoints st \<union> S)\<rparr>"
proof (cases endpoint)
  case (Endpoint a p)
  show ?thesis
  proof (cases "a = V4 address_v4_any")
    case True
    with Endpoint show ?thesis by (auto simp: prohibitEndpoint_any4)
  next
    case not4: False
    show ?thesis
    proof (cases "a = V6 address_v6_any")
      case True
      with Endpoint show ?thesis by (auto simp: prohibitEndpoint_any6)
    next
      case False
      with not4 Endpoint have "prohibitEndpoint pf endpoint st =
          st\<lparr>m_prohibitedEndpoints := insert endpoint (m_prohibitedEndpoints st \<union> {})\<rparr>"
        by (simp add: prohibitEndpoint_concrete)
      then show ?thesis by blast
    qed
  qed
qed

section \<open>Wildcard expansion\<close>

lemma prohibited_any4:
  "m_prohibitedEndpoints (prohibitEndpoint pf (Endpoint (V4 address_v4_any) P) st) =
     insert (Endpoint (V4 address_v4_any) P)
       (m_prohibitedEndpoints st \<union> (\<lambda>a. Endpoint (V4 a) P) ` {a \<in> local_ipv4 pf. a \<noteq> address_v4_any})"
  by (simp add: prohibitEndpoint_any4)

lemma prohibited_any6:
  "m_prohibitedEndpoints (prohibitEndpoint pf (Endpoint (V6 address_v6_any) P) st) =
     insert (Endpoint (V6 address_v6_any) P)
       (m_prohibitedEndpoints st \<union> (\<lambda>a. Endpoint (V6 a) P) ` {a \<in> local_ipv6 pf. a \<noteq> address_v6_any})"
  by (simp add: prohibitEndpoint_any6)

text \<open>
  C3. For every port \<open>P\<close>, prohibiting the IPv4 wildcard address at \<open>P\<close> leaves a set of
  prohibited endpoints that contains every local IPv4 address of the interface snapshot
  paired with \<open>P\<close>, contains the IPv4 wildcard endpoint itself, and contains no IPv6 endpoint
  that was not in the set before; and the same holds with IPv4 and IPv6 exchanged.
\<close>

theorem wildcard_prohibition_expansion:
  "(\<forall>a \<in> local_ipv4 pf.
      Endpoint (V4 a) P \<in> m_prohibitedEndpoints (prohibitEndpoint pf (Endpoint (V4 address_v4_any) P) st)) \<and>
   Endpoint (V4 address_v4_any) P \<in>
      m_prohibitedEndpoints (prohibitEndpoint pf (Endpoint (V4 address_v4_any) P) st) \<and>
   (\<forall>e \<in> m_prohibitedEndpoints (prohibitEndpoint pf (Endpoint (V4 address_v4_any) P) st).
      is_v6 (address e) \<longrightarrow> e \<in> m_prohibitedEndpoints st) \<and>
   (\<forall>a \<in> local_ipv6 pf.
      Endpoint (V6 a) P \<in> m_prohibitedEndpoints (prohibitEndpoint pf (Endpoint (V6 address_v6_any) P) st)) \<and>
   Endpoint (V6 address_v6_any) P \<in>
      m_prohibitedEndpoints (prohibitEndpoint pf (Endpoint (V6 address_v6_any) P) st) \<and>
   (\<forall>e \<in> m_prohibitedEndpoints (prohibitEndpoint pf (Endpoint (V6 address_v6_any) P) st).
      is_v4 (address e) \<longrightarrow> e \<in> m_prohibitedEndpoints st)"
proof -
  have a4: "\<forall>a \<in> local_ipv4 pf.
      Endpoint (V4 a) P \<in> m_prohibitedEndpoints (prohibitEndpoint pf (Endpoint (V4 address_v4_any) P) st)"
    unfolding prohibited_any4 by blast
  have w4: "Endpoint (V4 address_v4_any) P \<in>
      m_prohibitedEndpoints (prohibitEndpoint pf (Endpoint (V4 address_v4_any) P) st)"
    unfolding prohibited_any4 by simp
  have b4: "\<forall>e \<in> m_prohibitedEndpoints (prohibitEndpoint pf (Endpoint (V4 address_v4_any) P) st).
      is_v6 (address e) \<longrightarrow> e \<in> m_prohibitedEndpoints st"
    unfolding prohibited_any4 by auto
  have a6: "\<forall>a \<in> local_ipv6 pf.
      Endpoint (V6 a) P \<in> m_prohibitedEndpoints (prohibitEndpoint pf (Endpoint (V6 address_v6_any) P) st)"
    unfolding prohibited_any6 by blast
  have w6: "Endpoint (V6 address_v6_any) P \<in>
      m_prohibitedEndpoints (prohibitEndpoint pf (Endpoint (V6 address_v6_any) P) st)"
    unfolding prohibited_any6 by simp
  have b6: "\<forall>e \<in> m_prohibitedEndpoints (prohibitEndpoint pf (Endpoint (V6 address_v6_any) P) st).
      is_v4 (address e) \<longrightarrow> e \<in> m_prohibitedEndpoints st"
    unfolding prohibited_any6 by auto
  show ?thesis
    by (rule conjI [OF a4 conjI [OF w4 conjI [OF b4 conjI [OF a6 conjI [OF w6 b6]]]]])
qed

text \<open>
  On the sample platform, prohibiting the IPv4 wildcard at port 6363 in the empty factory
  prohibits 127.0.0.1 and 192.168.0.1 at that port and leaves ::1 alone; prohibiting the
  IPv6 wildcard prohibits ::1 and leaves 127.0.0.1 alone.
\<close>

theorem wildcard_prohibition_expansion_witness:
  "Endpoint (V4 0x7F000001) 6363 \<in>
     m_prohibitedEndpoints (prohibitEndpoint sample_platform (Endpoint (V4 address_v4_any) 6363) empty_factory) \<and>
   Endpoint (V4 0xC0A80001) 6363 \<in>
     m_prohibitedEndpoints (prohibitEndpoint sample_platform (Endpoint (V4 address_v4_any) 6363) empty_factory) \<and>
   Endpoint (V4 address_v4_any) 6363 \<in>
     m_prohibitedEndpoints (prohibitEndpoint sample_platform (Endpoint (V4 address_v4_any) 6363) empty_factory) \<and>
   Endpoint (V6 (1, 0)) 6363 \<notin>
     m_prohibitedEndpoints (prohibitEndpoint sample_platform (Endpoint (V4 address_v4_any) 6363) empty_factory) \<and>
   Endpoint (V6 (1, 0)) 6363 \<in>
     m_prohibitedEndpoints (prohibitEndpoint sample_platform (Endpoint (V6 address_v6_any) 6363) empty_factory) \<and>
   Endpoint (V4 0x7F000001) 6363 \<notin>
     m_prohibitedEndpoints (prohibitEndpoint sample_platform (Endpoint (V6 address_v6_any) 6363) empty_factory)"
proof -
  let ?r4 = "m_prohibitedEndpoints (prohibitEndpoint sample_platform (Endpoint (V4 address_v4_any) 6363) empty_factory)"
  let ?r6 = "m_prohibitedEndpoints (prohibitEndpoint sample_platform (Endpoint (V6 address_v6_any) 6363) empty_factory)"
  note exp = wildcard_prohibition_expansion [of sample_platform 6363 empty_factory]
  have l4: "0x7F000001 \<in> local_ipv4 sample_platform" "0xC0A80001 \<in> local_ipv4 sample_platform"
    by (simp_all add: local_ipv4_def sample_platform_def sample_interfaces_def)
  have l6: "(1, 0) \<in> local_ipv6 sample_platform"
    by (simp add: local_ipv6_def sample_platform_def sample_interfaces_def)
  have e: "m_prohibitedEndpoints empty_factory = {}"
    by (simp add: empty_factory_def)
  have 1: "Endpoint (V4 0x7F000001) 6363 \<in> ?r4" using exp l4(1) by blast
  have 2: "Endpoint (V4 0xC0A80001) 6363 \<in> ?r4" using exp l4(2) by blast
  have 3: "Endpoint (V4 address_v4_any) 6363 \<in> ?r4" using exp by blast
  have 4: "Endpoint (V6 (1, 0)) 6363 \<notin> ?r4"
  proof
    assume "Endpoint (V6 (1, 0)) 6363 \<in> ?r4"
    moreover have "is_v6 (address (Endpoint (V6 (1, 0)) 6363))" by simp
    ultimately have "Endpoint (V6 (1, 0)) 6363 \<in> m_prohibitedEndpoints empty_factory"
      using exp by blast
    then show False by (simp add: e)
  qed
  have 5: "Endpoint (V6 (1, 0)) 6363 \<in> ?r6" using exp l6 by blast
  have 6: "Endpoint (V4 0x7F000001) 6363 \<notin> ?r6"
  proof
    assume "Endpoint (V4 0x7F000001) 6363 \<in> ?r6"
    moreover have "is_v4 (address (Endpoint (V4 0x7F000001) 6363))" by simp
    ultimately have "Endpoint (V4 0x7F000001) 6363 \<in> m_prohibitedEndpoints empty_factory"
      using exp by blast
    then show False by (simp add: e)
  qed
  show ?thesis
    by (rule conjI [OF 1 conjI [OF 2 conjI [OF 3 conjI [OF 4 conjI [OF 5 6]]]]])
qed

section \<open>Termination and depth of the prohibition\<close>

lemma fold_option:
  "fold (\<lambda>x r. case r of None \<Rightarrow> None | Some s \<Rightarrow> if P x then Some (h x s) else Some s) xs (Some st) =
     Some (fold (\<lambda>x s. if P x then h x s else s) xs st)"
  by (induction xs arbitrary: st) simp_all

lemma fold_fold_option:
  "fold (\<lambda>nic. fold (\<lambda>x r. case r of None \<Rightarrow> None | Some s \<Rightarrow> if P x then Some (h x s) else Some s) (g nic))
     nics (Some st) =
   Some (fold (\<lambda>nic. fold (\<lambda>x s. if P x then h x s else s) (g nic)) nics st)"
  by (induction nics arbitrary: st) (simp_all add: fold_option)

lemma prohibitAllIpv4Endpoints_fuel_Suc:
  "prohibitAllIpv4Endpoints_fuel (Suc n) pf p st = Some (prohibitAllIpv4Endpoints pf p st)"
proof -
  have "(\<lambda>addr r. case r of None \<Rightarrow> None
           | Some s \<Rightarrow> if addr \<noteq> address_v4_any
                        then prohibitEndpoint_fuel (Suc n) pf (Endpoint (V4 addr) p) s else Some s) =
        (\<lambda>addr r. case r of None \<Rightarrow> None
           | Some s \<Rightarrow> if addr \<noteq> address_v4_any
                        then Some (prohibitEndpoint pf (Endpoint (V4 addr) p) s) else Some s)"
    by (intro ext) (simp add: prohibitEndpoint_concrete split: option.split)
  then show ?thesis
    unfolding prohibitAllIpv4Endpoints_fuel.simps prohibitAllIpv4Endpoints.simps
    by (simp only: fold_fold_option)
qed

lemma prohibitAllIpv6Endpoints_fuel_Suc:
  "prohibitAllIpv6Endpoints_fuel (Suc n) pf p st = Some (prohibitAllIpv6Endpoints pf p st)"
proof -
  have "(\<lambda>addr r. case r of None \<Rightarrow> None
           | Some s \<Rightarrow> if addr \<noteq> address_v6_any
                        then prohibitEndpoint_fuel (Suc n) pf (Endpoint (V6 addr) p) s else Some s) =
        (\<lambda>addr r. case r of None \<Rightarrow> None
           | Some s \<Rightarrow> if addr \<noteq> address_v6_any
                        then Some (prohibitEndpoint pf (Endpoint (V6 addr) p) s) else Some s)"
    by (intro ext) (simp add: prohibitEndpoint_concrete split: option.split)
  then show ?thesis
    unfolding prohibitAllIpv6Endpoints_fuel.simps prohibitAllIpv6Endpoints.simps
    by (simp only: fold_fold_option)
qed

lemma prohibitEndpoint_fuel_2:
  "prohibitEndpoint_fuel (Suc (Suc n)) pf endpoint st = Some (prohibitEndpoint pf endpoint st)"
proof -
  have "prohibitEndpoint_fuel (Suc (Suc n)) pf endpoint st =
     (case (if is_v4 (address endpoint) \<and> address endpoint = V4 address_v4_any
            then Some (prohibitAllIpv4Endpoints pf (port endpoint) st)
            else if is_v6 (address endpoint) \<and> address endpoint = V6 address_v6_any
            then Some (prohibitAllIpv6Endpoints pf (port endpoint) st)
            else Some st) of
        None \<Rightarrow> None
      | Some st' \<Rightarrow> Some (st'\<lparr>m_prohibitedEndpoints := insert endpoint (m_prohibitedEndpoints st')\<rparr>))"
    by (simp only: prohibitEndpoint_fuel.simps(2) prohibitAllIpv4Endpoints_fuel_Suc
          prohibitAllIpv6Endpoints_fuel_Suc)
  also have "\<dots> = Some (prohibitEndpoint pf endpoint st)"
    by (simp add: prohibitEndpoint.simps Let_def)
  finally show ?thesis .
qed

lemma finite_local: "finite (local_ipv4 pf)" "finite (local_ipv6 pf)"
  by (simp_all add: local_ipv4_def local_ipv6_def)

lemma prohibitEndpoint_adds_finite:
  "finite (m_prohibitedEndpoints (prohibitEndpoint pf endpoint st) - m_prohibitedEndpoints st)"
proof (cases endpoint)
  case (Endpoint a p)
  consider "a = V4 address_v4_any" | "a = V6 address_v6_any"
    | "a \<noteq> V4 address_v4_any" "a \<noteq> V6 address_v6_any"
    by blast
  then show ?thesis
  proof cases
    case 1
    have "m_prohibitedEndpoints (prohibitEndpoint pf endpoint st) - m_prohibitedEndpoints st \<subseteq>
          insert endpoint ((\<lambda>a. Endpoint (V4 a) p) ` local_ipv4 pf)"
      unfolding Endpoint 1 prohibited_any4 by blast
    then show ?thesis
      by (rule finite_subset) (simp add: finite_local)
  next
    case 2
    have "m_prohibitedEndpoints (prohibitEndpoint pf endpoint st) - m_prohibitedEndpoints st \<subseteq>
          insert endpoint ((\<lambda>a. Endpoint (V6 a) p) ` local_ipv6 pf)"
      unfolding Endpoint 2 prohibited_any6 by blast
    then show ?thesis
      by (rule finite_subset) (simp add: finite_local)
  next
    case 3
    then have "m_prohibitedEndpoints (prohibitEndpoint pf endpoint st) - m_prohibitedEndpoints st \<subseteq> {endpoint}"
      by (auto simp: prohibitEndpoint_concrete Endpoint)
    then show ?thesis
      by (rule finite_subset) simp
  qed
qed

text \<open>
  C10. \<^verbatim>\<open>prohibitEndpoint\<close> terminates on every input: two levels of recursion suffice
  for every endpoint, because each call that an expansion helper makes is on a concrete
  address and returns with one level (the helpers return with fuel 1), and the call inserts
  finitely many endpoints.
\<close>

theorem prohibitEndpoint_terminates_depth_two:
  "prohibitEndpoint_fuel 2 pf endpoint st = Some (prohibitEndpoint pf endpoint st) \<and>
   prohibitAllIpv4Endpoints_fuel 1 pf p st = Some (prohibitAllIpv4Endpoints pf p st) \<and>
   prohibitAllIpv6Endpoints_fuel 1 pf p st = Some (prohibitAllIpv6Endpoints pf p st) \<and>
   finite (m_prohibitedEndpoints (prohibitEndpoint pf endpoint st) - m_prohibitedEndpoints st)"
proof -
  have "prohibitEndpoint_fuel 2 pf endpoint st = Some (prohibitEndpoint pf endpoint st)"
    using prohibitEndpoint_fuel_2 [of 0] by (simp only: numeral_2_eq_2)
  moreover have "prohibitAllIpv4Endpoints_fuel 1 pf p st = Some (prohibitAllIpv4Endpoints pf p st)"
    using prohibitAllIpv4Endpoints_fuel_Suc [of 0] by (simp only: One_nat_def)
  moreover have "prohibitAllIpv6Endpoints_fuel 1 pf p st = Some (prohibitAllIpv6Endpoints pf p st)"
    using prohibitAllIpv6Endpoints_fuel_Suc [of 0] by (simp only: One_nat_def)
  ultimately show ?thesis
    using prohibitEndpoint_adds_finite by blast
qed

text \<open>
  On the sample platform the IPv4 wildcard at port 6363 needs both levels: one level of
  recursion does not suffice, two give the three prohibited endpoints.
\<close>

theorem prohibitEndpoint_terminates_depth_two_witness:
  "prohibitEndpoint_fuel 1 sample_platform (Endpoint (V4 address_v4_any) 6363) empty_factory = None \<and>
   prohibitEndpoint_fuel 2 sample_platform (Endpoint (V4 address_v4_any) 6363) empty_factory =
     Some (prohibitEndpoint sample_platform (Endpoint (V4 address_v4_any) 6363) empty_factory) \<and>
   m_prohibitedEndpoints (prohibitEndpoint sample_platform (Endpoint (V4 address_v4_any) 6363) empty_factory) =
     {Endpoint (V4 0) 6363, Endpoint (V4 0x7F000001) 6363, Endpoint (V4 0xC0A80001) 6363}"
proof -
  have 1: "prohibitEndpoint_fuel 1 sample_platform (Endpoint (V4 address_v4_any) 6363) empty_factory = None"
    by (simp add: sample_platform_def sample_interfaces_def address_v4_any_def)
  have 2: "prohibitEndpoint_fuel 2 sample_platform (Endpoint (V4 address_v4_any) 6363) empty_factory =
     Some (prohibitEndpoint sample_platform (Endpoint (V4 address_v4_any) 6363) empty_factory)"
    using prohibitEndpoint_terminates_depth_two [of sample_platform "Endpoint (V4 address_v4_any) 6363" empty_factory]
    by blast
  have "local_ipv4 sample_platform = {0x7F000001, 0xC0A80001}"
    by (auto simp: local_ipv4_def sample_platform_def sample_interfaces_def)
  then have 3: "m_prohibitedEndpoints (prohibitEndpoint sample_platform (Endpoint (V4 address_v4_any) 6363) empty_factory) =
     {Endpoint (V4 0) 6363, Endpoint (V4 0x7F000001) 6363, Endpoint (V4 0xC0A80001) 6363}"
    unfolding prohibited_any4 by (auto simp: empty_factory_def address_v4_any_def)
  show ?thesis
    by (rule conjI [OF 1 conjI [OF 2 3]])
qed

section \<open>The channel registry is a find-or-create\<close>

lemma prohibitEndpoint_fields:
  "m_channels (prohibitEndpoint pf endpoint st) = m_channels st"
  "channel_store (prohibitEndpoint pf endpoint st) = channel_store st"
  "next_ref (prohibitEndpoint pf endpoint st) = next_ref st"
  "providedSchemes (prohibitEndpoint pf endpoint st) = providedSchemes st"
  "endpoint \<in> m_prohibitedEndpoints (prohibitEndpoint pf endpoint st)"
  "m_prohibitedEndpoints st \<subseteq> m_prohibitedEndpoints (prohibitEndpoint pf endpoint st)"
proof -
  obtain S where "prohibitEndpoint pf endpoint st =
      st\<lparr>m_prohibitedEndpoints := insert endpoint (m_prohibitedEndpoints st \<union> S)\<rparr>"
    using prohibitEndpoint_frame by blast
  then show
    "m_channels (prohibitEndpoint pf endpoint st) = m_channels st"
    "channel_store (prohibitEndpoint pf endpoint st) = channel_store st"
    "next_ref (prohibitEndpoint pf endpoint st) = next_ref st"
    "providedSchemes (prohibitEndpoint pf endpoint st) = providedSchemes st"
    "endpoint \<in> m_prohibitedEndpoints (prohibitEndpoint pf endpoint st)"
    "m_prohibitedEndpoints st \<subseteq> m_prohibitedEndpoints (prohibitEndpoint pf endpoint st)"
    by auto
qed

lemma map_of_map_assign: "map_of (map_assign lt k v xs) k = Some v"
  by (induction xs) auto

lemma set_map_assign_new:
  "k \<notin> fst ` set xs \<Longrightarrow> set (map_assign lt k v xs) = insert (k, v) (set xs)"
  by (induction xs) (auto split: if_splits)

lemma filter_map_assign_new:
  "k \<notin> fst ` set xs \<Longrightarrow> filter (\<lambda>i. fst i = k) (map_assign lt k v xs) = [(k, v)]"
proof (induction xs)
  case Nil
  show ?case by simp
next
  case (Cons x xs)
  then have "k \<noteq> fst x" "k \<notin> fst ` set xs" "filter (\<lambda>i. fst i = k) xs = []"
    by (auto simp: filter_empty_conv)
  with Cons.IH show ?case
    by (cases x) auto
qed

lemma distinct_map_assign_new:
  "k \<notin> fst ` set xs \<Longrightarrow> distinct (map fst xs) \<Longrightarrow> distinct (map fst (map_assign lt k v xs))"
  by (induction xs) (auto simp: set_map_assign_new)

lemma filter_key_distinct:
  "distinct (map fst xs) \<Longrightarrow> map_of xs k = Some v \<Longrightarrow> filter (\<lambda>i. fst i = k) xs = [(k, v)]"
proof (induction xs)
  case Nil
  then show ?case by simp
next
  case (Cons x xs)
  show ?case
  proof (cases "fst x = k")
    case True
    with Cons.prems have "x = (k, v)" "k \<notin> fst ` set xs"
      by (cases x; auto)+
    then have "filter (\<lambda>i. fst i = k) xs = []"
      by (auto simp: filter_empty_conv)
    with \<open>x = (k, v)\<close> show ?thesis by simp
  next
    case False
    with Cons show ?thesis by (cases x) auto
  qed
qed

lemma createChannel_found:
  "findChannel st endpoint = Some c \<Longrightarrow> createChannel pf endpoint st = (c, st)"
  by (simp add: createChannel_def)

lemma createChannel_new:
  "findChannel st endpoint = None \<Longrightarrow>
   createChannel pf endpoint st =
     (next_ref st,
      prohibitEndpoint pf endpoint
        (st\<lparr>channel_store := (channel_store st)(next_ref st := make_TcpChannel endpoint),
            next_ref := Suc (next_ref st),
            m_channels := map_assign (endpoint_less pf) endpoint (next_ref st) (m_channels st)\<rparr>))"
  by (simp add: createChannel_def Let_def)

lemma findChannel_None_iff: "findChannel st endpoint = None \<longleftrightarrow> endpoint \<notin> fst ` set (m_channels st)"
  by (simp add: findChannel_def map_of_eq_None_iff)

text \<open>
  The registry keeps one entry for each key and holds allocated channels only: every call of
  \<^verbatim>\<open>createChannel\<close> preserves both.
\<close>

lemma createChannel_keeps_registry:
  assumes "distinct (map fst (m_channels st))"
    and "\<forall>i \<in> set (m_channels st). snd i < next_ref st"
  shows "distinct (map fst (m_channels (snd (createChannel pf E st))))"
    and "\<forall>i \<in> set (m_channels (snd (createChannel pf E st))).
           snd i < next_ref (snd (createChannel pf E st))"
proof -
  show "distinct (map fst (m_channels (snd (createChannel pf E st))))"
  proof (cases "findChannel st E")
    case None
    then have "E \<notin> fst ` set (m_channels st)"
      by (simp add: findChannel_None_iff)
    then show ?thesis
      using assms(1) None
      by (simp add: createChannel_new prohibitEndpoint_fields distinct_map_assign_new)
  next
    case (Some ch)
    then show ?thesis
      using assms(1) by (simp add: createChannel_found)
  qed
  show "\<forall>i \<in> set (m_channels (snd (createChannel pf E st))).
          snd i < next_ref (snd (createChannel pf E st))"
  proof (cases "findChannel st E")
    case None
    then have "E \<notin> fst ` set (m_channels st)"
      by (simp add: findChannel_None_iff)
    then show ?thesis
      using assms(2) None
      by (auto simp: createChannel_new prohibitEndpoint_fields set_map_assign_new less_Suc_eq)
  next
    case (Some ch)
    then show ?thesis
      using assms(2) by (simp add: createChannel_found)
  qed
qed

text \<open>
  C4. \<^verbatim>\<open>createChannel\<close> is idempotent: in a factory whose registry has one entry for each
  key and holds allocated channels only, a second call with the same Endpoint returns the
  channel of the first call and changes nothing, and the registry holds exactly one entry
  for that Endpoint. Where no channel was registered for the Endpoint, the first call
  allocates a new channel with that local Endpoint, registers it and prohibits the
  Endpoint; where one was registered, it returns that channel and changes nothing.
\<close>

theorem createChannel_idempotent:
  assumes keys: "distinct (map fst (m_channels st))"
    and refs: "\<forall>i \<in> set (m_channels st). snd i < next_ref st"
  shows "createChannel pf E (snd (createChannel pf E st)) = createChannel pf E st \<and>
         filter (\<lambda>i. fst i = E) (m_channels (snd (createChannel pf E st))) =
           [(E, fst (createChannel pf E st))] \<and>
         (findChannel st E = None \<longrightarrow>
            fst (createChannel pf E st) \<notin> snd ` set (m_channels st) \<and>
            channel_store (snd (createChannel pf E st)) (fst (createChannel pf E st)) =
              make_TcpChannel E \<and>
            E \<in> m_prohibitedEndpoints (snd (createChannel pf E st))) \<and>
         (findChannel st E \<noteq> None \<longrightarrow>
            findChannel st E = Some (fst (createChannel pf E st)) \<and>
            snd (createChannel pf E st) = st)"
proof (cases "findChannel st E")
  case None
  let ?c = "next_ref st"
  let ?st1 = "snd (createChannel pf E st)"
  have absent: "E \<notin> fst ` set (m_channels st)"
    using None by (simp add: findChannel_None_iff)
  have c: "fst (createChannel pf E st) = ?c"
    using None by (simp add: createChannel_new)
  have chans: "m_channels ?st1 = map_assign (endpoint_less pf) E ?c (m_channels st)"
    using None by (simp add: createChannel_new prohibitEndpoint_fields)
  have store: "channel_store ?st1 ?c = make_TcpChannel E"
    using None by (simp add: createChannel_new prohibitEndpoint_fields)
  have proh: "E \<in> m_prohibitedEndpoints ?st1"
    using None by (simp add: createChannel_new prohibitEndpoint_fields)
  have found: "findChannel ?st1 E = Some ?c"
    by (simp add: findChannel_def chans map_of_map_assign)
  have again: "createChannel pf E ?st1 = createChannel pf E st"
    using createChannel_found [OF found, of pf] c by (simp add: prod_eq_iff)
  have one: "filter (\<lambda>i. fst i = E) (m_channels ?st1) = [(E, ?c)]"
    unfolding chans by (rule filter_map_assign_new [OF absent])
  have fresh: "?c \<notin> snd ` set (m_channels st)"
    using refs by auto
  show ?thesis
    using None c again one fresh store proh by simp
next
  case (Some ch)
  have same: "createChannel pf E st = (ch, st)"
    by (rule createChannel_found [OF Some])
  have one: "filter (\<lambda>i. fst i = E) (m_channels st) = [(E, ch)]"
    using keys Some by (simp add: findChannel_def filter_key_distinct)
  show ?thesis
    using Some one by (simp add: same)
qed

text \<open>
  In the empty factory on the sample platform, the first call for the IPv4 wildcard at port
  6363 allocates channel 0, registers it as the only entry and prohibits the endpoint; the
  second call yields the same channel and the same factory.
\<close>

theorem createChannel_idempotent_witness:
  "fst (createChannel sample_platform (Endpoint (V4 address_v4_any) 6363) empty_factory) = 0 \<and>
   createChannel sample_platform (Endpoint (V4 address_v4_any) 6363)
     (snd (createChannel sample_platform (Endpoint (V4 address_v4_any) 6363) empty_factory)) =
     createChannel sample_platform (Endpoint (V4 address_v4_any) 6363) empty_factory \<and>
   m_channels (snd (createChannel sample_platform (Endpoint (V4 address_v4_any) 6363) empty_factory)) =
     [(Endpoint (V4 address_v4_any) 6363, 0)] \<and>
   Endpoint (V4 address_v4_any) 6363 \<in>
     m_prohibitedEndpoints (snd (createChannel sample_platform (Endpoint (V4 address_v4_any) 6363) empty_factory))"
proof -
  let ?E = "Endpoint (V4 address_v4_any) 6363"
  have keys: "distinct (map fst (m_channels empty_factory))"
    by (simp add: empty_factory_def)
  have refs: "\<forall>i \<in> set (m_channels empty_factory). snd i < next_ref empty_factory"
    by (simp add: empty_factory_def)
  note idem = createChannel_idempotent [OF keys refs, of sample_platform ?E]
  have none: "findChannel empty_factory ?E = None"
    by (simp add: findChannel_def empty_factory_def)
  have c: "fst (createChannel sample_platform ?E empty_factory) = 0"
    unfolding createChannel_new [OF none] by (simp add: empty_factory_def)
  have chans: "m_channels (snd (createChannel sample_platform ?E empty_factory)) = [(?E, 0)]"
    unfolding createChannel_new [OF none] by (simp add: prohibitEndpoint_fields empty_factory_def)
  have again: "createChannel sample_platform ?E (snd (createChannel sample_platform ?E empty_factory)) =
      createChannel sample_platform ?E empty_factory"
    using idem by (rule conjunct1)
  have proh: "?E \<in> m_prohibitedEndpoints (snd (createChannel sample_platform ?E empty_factory))"
    using idem none by blast
  show ?thesis
    by (rule conjI [OF c conjI [OF again conjI [OF chans proh]]])
qed

section \<open>Configuration is validated before it is applied\<close>

lemma processConfig_body_unrecognized:
  "fst pair \<notin> {''listen'', ''port'', ''enable_v4'', ''enable_v6''} \<Longrightarrow>
   processConfig_body pf pair vars = Inl (Error (''Unrecognized option face_system.tcp.'' @ fst pair))"
  by (cases vars) (simp add: processConfig_body_def Let_def)

lemma processConfig_loop_unrecognized:
  "\<exists>pair \<in> set cfg. fst pair \<notin> {''listen'', ''port'', ''enable_v4'', ''enable_v6''} \<Longrightarrow>
   \<exists>e. processConfig_loop pf cfg vars = Inl e"
proof (induction cfg arbitrary: vars)
  case Nil
  then show ?case by simp
next
  case (Cons pair rest)
  show ?case
  proof (cases "processConfig_body pf pair vars")
    case (Inl e)
    then show ?thesis by simp
  next
    case (Inr vars')
    then have "fst pair \<in> {''listen'', ''port'', ''enable_v4'', ''enable_v6''}"
      using processConfig_body_unrecognized [of pair pf vars] by auto
    with Cons.prems have "\<exists>p \<in> set rest. fst p \<notin> {''listen'', ''port'', ''enable_v4'', ''enable_v6''}"
      by auto
    then show ?thesis
      using Cons.IH [of vars'] Inr by simp
  qed
qed

lemma processConfig_error_state:
  "fst (processConfig pf configSection ctx st) = Inl e \<Longrightarrow> snd (processConfig pf configSection ctx st) = st"
  by (auto simp: processConfig_def Let_def split: option.splits sum.splits prod.splits if_splits)

lemma processConfig_dry_run_state:
  "isDryRun ctx \<Longrightarrow> snd (processConfig pf configSection ctx st) = st"
  by (auto simp: processConfig_def split: option.splits sum.splits prod.splits)

lemma processConfig_loop_error:
  "processConfig_loop pf cfg (True, 6363, True, True) = Inl e \<Longrightarrow>
   processConfig pf (Some cfg) ctx st = (Inl e, st)"
  by (simp add: processConfig_def)

lemma processConfig_both_disabled:
  "processConfig_loop pf cfg (True, 6363, True, True) = Inr (wantListen, portNum, False, False) \<Longrightarrow>
   processConfig pf (Some cfg) ctx st =
     (Inl (Error (''IPv4 and IPv6 TCP channels have been disabled. Remove '' @
                  ''face_system.tcp section to disable '' @
                  ''TCP channels or enable at least one channel type.'')), st)"
  by (simp add: processConfig_def)

lemma processConfig_result_independent_of_dry_run:
  "fst (processConfig pf configSection ctx st) = fst (processConfig pf configSection ctx' st)"
  by (auto simp: processConfig_def Let_def split: option.splits sum.splits prod.splits)

lemma not_isl_Inr: "\<not> isl x \<Longrightarrow> \<exists>b. x = Inr b"
  by (cases x) simp_all

lemma final_yesno_Cons:
  "final_yesno pf key d (pair # rest) =
     final_yesno pf key
       (if fst pair = key then parseYesNo pf pair ''face_system.tcp'' = Inr True else d) rest"
  by (cases "filter (\<lambda>p. fst p = key) rest") (simp_all add: final_yesno_def)

lemma processConfig_body_listen:
  "fst pair = ''listen'' \<Longrightarrow> parseYesNo pf pair ''face_system.tcp'' = Inr b \<Longrightarrow>
   processConfig_body pf pair (w, p, e4, e6) = Inr (b, p, e4, e6)"
  by (simp add: processConfig_body_def)

lemma processConfig_body_port:
  "fst pair = ''port'' \<Longrightarrow> parseNumber_uint16 pf pair ''face_system.tcp'' = Inr n \<Longrightarrow>
   processConfig_body pf pair (w, p, e4, e6) = Inr (w, n, e4, e6)"
  by (simp add: processConfig_body_def)

lemma processConfig_body_enable_v4:
  "fst pair = ''enable_v4'' \<Longrightarrow> parseYesNo pf pair ''face_system.tcp'' = Inr b \<Longrightarrow>
   processConfig_body pf pair (w, p, e4, e6) = Inr (w, p, b, e6)"
  by (simp add: processConfig_body_def)

lemma processConfig_body_enable_v6:
  "fst pair = ''enable_v6'' \<Longrightarrow> parseYesNo pf pair ''face_system.tcp'' = Inr b \<Longrightarrow>
   processConfig_body pf pair (w, p, e4, e6) = Inr (w, p, e4, b)"
  by (simp add: processConfig_body_def)

lemma processConfig_body_malformed:
  "\<not> well_formed pf pair \<Longrightarrow> \<exists>e. processConfig_body pf pair vars = Inl e"
  by (cases vars)
    (auto simp: well_formed_def processConfig_body_def Let_def isl_def split: if_splits sum.splits)

lemma processConfig_loop_malformed:
  "\<exists>pair \<in> set cfg. \<not> well_formed pf pair \<Longrightarrow> \<exists>e. processConfig_loop pf cfg vars = Inl e"
proof (induction cfg arbitrary: vars)
  case Nil
  then show ?case by simp
next
  case (Cons pair rest)
  show ?case
  proof (cases "processConfig_body pf pair vars")
    case (Inl e)
    then show ?thesis by simp
  next
    case (Inr vars')
    then have "well_formed pf pair"
      using processConfig_body_malformed [of pf pair vars] by auto
    with Cons.prems have "\<exists>p \<in> set rest. \<not> well_formed pf p"
      by auto
    then show ?thesis
      using Cons.IH [of vars'] Inr by simp
  qed
qed

lemma processConfig_loop_well_formed:
  "\<forall>pair \<in> set cfg. well_formed pf pair \<Longrightarrow>
   \<exists>w' p'. processConfig_loop pf cfg (w, p, e4, e6) =
     Inr (w', p', final_yesno pf ''enable_v4'' e4 cfg, final_yesno pf ''enable_v6'' e6 cfg)"
proof (induction cfg arbitrary: w p e4 e6)
  case Nil
  show ?case by (simp add: final_yesno_def)
next
  case (Cons pair rest)
  then have wf: "well_formed pf pair" and rest: "\<forall>x \<in> set rest. well_formed pf x"
    by simp_all
  consider (listen) "fst pair = ''listen''" | (port) "fst pair = ''port''"
    | (v4) "fst pair = ''enable_v4''" | (v6) "fst pair = ''enable_v6''"
    using wf by (auto simp: well_formed_def split: if_splits)
  then show ?case
  proof cases
    case listen
    with wf obtain b where b: "parseYesNo pf pair ''face_system.tcp'' = Inr b"
      using not_isl_Inr [of "parseYesNo pf pair ''face_system.tcp''"]
      by (auto simp: well_formed_def)
    show ?thesis
      using Cons.IH [OF rest, of b p e4 e6] listen
      by (simp add: processConfig_body_listen [OF listen b] final_yesno_Cons)
  next
    case port
    with wf obtain n where n: "parseNumber_uint16 pf pair ''face_system.tcp'' = Inr n"
      using not_isl_Inr [of "parseNumber_uint16 pf pair ''face_system.tcp''"]
      by (auto simp: well_formed_def)
    show ?thesis
      using Cons.IH [OF rest, of w n e4 e6] port
      by (simp add: processConfig_body_port [OF port n] final_yesno_Cons)
  next
    case v4
    with wf obtain b where b: "parseYesNo pf pair ''face_system.tcp'' = Inr b"
      using not_isl_Inr [of "parseYesNo pf pair ''face_system.tcp''"]
      by (auto simp: well_formed_def)
    show ?thesis
      using Cons.IH [OF rest, of w p b e6] v4
      by (simp add: processConfig_body_enable_v4 [OF v4 b] final_yesno_Cons b)
  next
    case v6
    with wf obtain b where b: "parseYesNo pf pair ''face_system.tcp'' = Inr b"
      using not_isl_Inr [of "parseYesNo pf pair ''face_system.tcp''"]
      by (auto simp: well_formed_def)
    show ?thesis
      using Cons.IH [OF rest, of w p e4 b] v6
      by (simp add: processConfig_body_enable_v6 [OF v6 b] final_yesno_Cons b)
  qed
qed

lemma processConfig_validation:
  "(\<exists>e. fst (processConfig pf (Some cfg) ctx st) = Inl e) \<longleftrightarrow>
     (\<exists>pair \<in> set cfg. \<not> well_formed pf pair) \<or>
     (\<not> final_yesno pf ''enable_v4'' True cfg \<and> \<not> final_yesno pf ''enable_v6'' True cfg)"
proof (cases "\<exists>pair \<in> set cfg. \<not> well_formed pf pair")
  case True
  then obtain e where "processConfig_loop pf cfg (True, 6363, True, True) = Inl e"
    using processConfig_loop_malformed by blast
  then have "processConfig pf (Some cfg) ctx st = (Inl e, st)"
    by (rule processConfig_loop_error)
  with True show ?thesis by simp
next
  case False
  then have "\<forall>pair \<in> set cfg. well_formed pf pair"
    by blast
  then obtain w' p' where "processConfig_loop pf cfg (True, 6363, True, True) =
      Inr (w', p', final_yesno pf ''enable_v4'' True cfg, final_yesno pf ''enable_v6'' True cfg)"
    using processConfig_loop_well_formed by blast
  then show ?thesis
    using False by (auto simp: processConfig_def Let_def split: prod.splits)
qed

lemma processConfig_section_disabled:
  assumes "\<forall>pair \<in> set cfg. well_formed pf pair"
    and "\<not> final_yesno pf ''enable_v4'' True cfg"
    and "\<not> final_yesno pf ''enable_v6'' True cfg"
  shows "processConfig pf (Some cfg) ctx st =
     (Inl (Error (''IPv4 and IPv6 TCP channels have been disabled. Remove '' @
                  ''face_system.tcp section to disable '' @
                  ''TCP channels or enable at least one channel type.'')), st)"
proof -
  obtain w' p' where "processConfig_loop pf cfg (True, 6363, True, True) =
      Inr (w', p', final_yesno pf ''enable_v4'' True cfg, final_yesno pf ''enable_v6'' True cfg)"
    using processConfig_loop_well_formed [OF assms(1)] by blast
  then have "processConfig_loop pf cfg (True, 6363, True, True) = Inr (w', p', False, False)"
    using assms(2,3) by simp
  then show ?thesis
    by (rule processConfig_both_disabled)
qed

text \<open>
  C5. From every starting state, a configuration section that \<^verbatim>\<open>processConfig\<close> rejects
  leaves the factory as it was, and with it the channel registry and the set of provided
  schemes: whenever the call throws, the factory is unchanged; a section with a key other
  than \<open>listen\<close>, \<open>port\<close>, \<open>enable_v4\<close> and \<open>enable_v6\<close> makes the call throw a
  \<^verbatim>\<open>ConfigFile::Error\<close>; and so does a section after which both \<open>enableV4\<close> and
  \<open>enableV6\<close> are false, with the message about the disabled channels. On the section
  itself: a pair that is not well-formed makes the call throw, and a section of well-formed
  pairs whose last \<open>enable_v4\<close> and last \<open>enable_v6\<close> pair both say no makes it throw
  the error about the disabled channels.
\<close>

theorem processConfig_rejection_leaves_state:
  "(\<forall>e. fst (processConfig pf (Some cfg) ctx st) = Inl e \<longrightarrow>
      snd (processConfig pf (Some cfg) ctx st) = st \<and>
      m_channels (snd (processConfig pf (Some cfg) ctx st)) = m_channels st \<and>
      providedSchemes (snd (processConfig pf (Some cfg) ctx st)) = providedSchemes st) \<and>
   ((\<exists>pair \<in> set cfg. fst pair \<notin> {''listen'', ''port'', ''enable_v4'', ''enable_v6''}) \<longrightarrow>
      (\<exists>e. processConfig pf (Some cfg) ctx st = (Inl e, st))) \<and>
   ((\<exists>wantListen portNum.
       processConfig_loop pf cfg (True, 6363, True, True) = Inr (wantListen, portNum, False, False)) \<longrightarrow>
      processConfig pf (Some cfg) ctx st =
        (Inl (Error (''IPv4 and IPv6 TCP channels have been disabled. Remove '' @
                     ''face_system.tcp section to disable '' @
                     ''TCP channels or enable at least one channel type.'')), st)) \<and>
   ((\<exists>pair \<in> set cfg. \<not> well_formed pf pair) \<longrightarrow>
      (\<exists>e. processConfig pf (Some cfg) ctx st = (Inl e, st))) \<and>
   ((\<forall>pair \<in> set cfg. well_formed pf pair) \<and>
    \<not> final_yesno pf ''enable_v4'' True cfg \<and> \<not> final_yesno pf ''enable_v6'' True cfg \<longrightarrow>
      processConfig pf (Some cfg) ctx st =
        (Inl (Error (''IPv4 and IPv6 TCP channels have been disabled. Remove '' @
                     ''face_system.tcp section to disable '' @
                     ''TCP channels or enable at least one channel type.'')), st))"
proof (intro conjI allI impI)
  fix e
  assume "fst (processConfig pf (Some cfg) ctx st) = Inl e"
  then have same: "snd (processConfig pf (Some cfg) ctx st) = st"
    by (rule processConfig_error_state)
  show "snd (processConfig pf (Some cfg) ctx st) = st"
    by (rule same)
  show "m_channels (snd (processConfig pf (Some cfg) ctx st)) = m_channels st"
    by (simp only: same)
  show "providedSchemes (snd (processConfig pf (Some cfg) ctx st)) = providedSchemes st"
    by (simp only: same)
next
  assume "\<exists>pair \<in> set cfg. fst pair \<notin> {''listen'', ''port'', ''enable_v4'', ''enable_v6''}"
  then obtain e where "processConfig_loop pf cfg (True, 6363, True, True) = Inl e"
    using processConfig_loop_unrecognized by blast
  then have "processConfig pf (Some cfg) ctx st = (Inl e, st)"
    by (rule processConfig_loop_error)
  then show "\<exists>e. processConfig pf (Some cfg) ctx st = (Inl e, st)" ..
next
  assume "\<exists>wantListen portNum.
     processConfig_loop pf cfg (True, 6363, True, True) = Inr (wantListen, portNum, False, False)"
  then obtain wantListen portNum where
    "processConfig_loop pf cfg (True, 6363, True, True) = Inr (wantListen, portNum, False, False)"
    by blast
  then show "processConfig pf (Some cfg) ctx st =
        (Inl (Error (''IPv4 and IPv6 TCP channels have been disabled. Remove '' @
                     ''face_system.tcp section to disable '' @
                     ''TCP channels or enable at least one channel type.'')), st)"
    by (rule processConfig_both_disabled)
next
  assume "\<exists>pair \<in> set cfg. \<not> well_formed pf pair"
  then obtain e where "processConfig_loop pf cfg (True, 6363, True, True) = Inl e"
    using processConfig_loop_malformed by blast
  then have "processConfig pf (Some cfg) ctx st = (Inl e, st)"
    by (rule processConfig_loop_error)
  then show "\<exists>e. processConfig pf (Some cfg) ctx st = (Inl e, st)" ..
next
  assume "(\<forall>pair \<in> set cfg. well_formed pf pair) \<and>
    \<not> final_yesno pf ''enable_v4'' True cfg \<and> \<not> final_yesno pf ''enable_v6'' True cfg"
  then show "processConfig pf (Some cfg) ctx st =
        (Inl (Error (''IPv4 and IPv6 TCP channels have been disabled. Remove '' @
                     ''face_system.tcp section to disable '' @
                     ''TCP channels or enable at least one channel type.'')), st)"
    using processConfig_section_disabled by blast
qed

text \<open>
  On the sample platform, in a factory that has the IPv4 channel at port 6363, the section
  that sets \<open>enable_v4\<close> and \<open>enable_v6\<close> to \<open>no\<close> is rejected with the factory
  unchanged, and so is a section with the key \<open>colour\<close>.
\<close>

theorem processConfig_rejection_leaves_state_witness:
  "processConfig sample_platform (Some [(''enable_v4'', ''no''), (''enable_v6'', ''no'')])
     \<lparr>isDryRun = False, addFace = 7\<rparr>
     (empty_factory\<lparr>m_channels := [(Endpoint (V4 address_v4_any) 6363, 0)],
        providedSchemes := {''tcp'', ''tcp4''}, next_ref := 1\<rparr>) =
     (Inl (Error (''IPv4 and IPv6 TCP channels have been disabled. Remove '' @
                  ''face_system.tcp section to disable '' @
                  ''TCP channels or enable at least one channel type.'')),
      empty_factory\<lparr>m_channels := [(Endpoint (V4 address_v4_any) 6363, 0)],
        providedSchemes := {''tcp'', ''tcp4''}, next_ref := 1\<rparr>) \<and>
   (\<exists>e. processConfig sample_platform (Some [(''listen'', ''yes''), (''colour'', ''red'')])
     \<lparr>isDryRun = False, addFace = 7\<rparr>
     (empty_factory\<lparr>m_channels := [(Endpoint (V4 address_v4_any) 6363, 0)],
        providedSchemes := {''tcp'', ''tcp4''}, next_ref := 1\<rparr>) =
     (Inl e,
      empty_factory\<lparr>m_channels := [(Endpoint (V4 address_v4_any) 6363, 0)],
        providedSchemes := {''tcp'', ''tcp4''}, next_ref := 1\<rparr>))"
proof -
  let ?st = "empty_factory\<lparr>m_channels := [(Endpoint (V4 address_v4_any) 6363, 0)],
        providedSchemes := {''tcp'', ''tcp4''}, next_ref := 1\<rparr>"
  let ?ctx = "\<lparr>isDryRun = False, addFace = 7\<rparr>"
  have loop: "processConfig_loop sample_platform [(''enable_v4'', ''no''), (''enable_v6'', ''no'')]
      (True, 6363, True, True) = Inr (True, 6363, False, False)"
    by (simp add: processConfig_body_def sample_platform_def sample_parseYesNo_def)
  have key: "\<exists>pair \<in> set [(''listen'', ''yes''), (''colour'', ''red'')].
      fst pair \<notin> {''listen'', ''port'', ''enable_v4'', ''enable_v6''}"
    by simp
  have 1: "processConfig sample_platform (Some [(''enable_v4'', ''no''), (''enable_v6'', ''no'')]) ?ctx ?st =
     (Inl (Error (''IPv4 and IPv6 TCP channels have been disabled. Remove '' @
                  ''face_system.tcp section to disable '' @
                  ''TCP channels or enable at least one channel type.'')), ?st)"
    using processConfig_rejection_leaves_state
      [of sample_platform "[(''enable_v4'', ''no''), (''enable_v6'', ''no'')]" ?ctx ?st] loop
    by blast
  have 2: "\<exists>e. processConfig sample_platform (Some [(''listen'', ''yes''), (''colour'', ''red'')]) ?ctx ?st =
     (Inl e, ?st)"
    using processConfig_rejection_leaves_state
      [of sample_platform "[(''listen'', ''yes''), (''colour'', ''red'')]" ?ctx ?st] key
    by blast
  show ?thesis
    by (rule conjI [OF 1 2])
qed

text \<open>
  C9. With the dry-run flag set, \<^verbatim>\<open>processConfig\<close> leaves the factory as it was, from every
  starting state and for every section, present or absent: no channel is created, no
  listener started, no scheme inserted. The validation is the full one: the call throws
  exactly when some pair of the section is not well-formed (its key is not recognized or
  its value does not parse) or the last \<open>enable_v4\<close> and the last \<open>enable_v6\<close> pair both
  say no; in the second case, with well-formed pairs, it throws the error about the
  disabled channels; and it throws the same error, or none, as the call without the flag.
\<close>

theorem processConfig_dry_run:
  assumes "isDryRun ctx"
  shows "snd (processConfig pf configSection ctx st) = st \<and>
         m_channels (snd (processConfig pf configSection ctx st)) = m_channels st \<and>
         providedSchemes (snd (processConfig pf configSection ctx st)) = providedSchemes st \<and>
         channel_store (snd (processConfig pf configSection ctx st)) = channel_store st \<and>
         fst (processConfig pf configSection ctx st) =
           fst (processConfig pf configSection (ctx\<lparr>isDryRun := False\<rparr>) st) \<and>
         (\<forall>cfg. configSection = Some cfg \<longrightarrow>
            ((\<exists>e. fst (processConfig pf configSection ctx st) = Inl e) \<longleftrightarrow>
             (\<exists>pair \<in> set cfg. \<not> well_formed pf pair) \<or>
             (\<not> final_yesno pf ''enable_v4'' True cfg \<and> \<not> final_yesno pf ''enable_v6'' True cfg))) \<and>
         ((\<exists>cfg. configSection = Some cfg \<and>
             (\<exists>pair \<in> set cfg. fst pair \<notin> {''listen'', ''port'', ''enable_v4'', ''enable_v6''})) \<longrightarrow>
            (\<exists>e. fst (processConfig pf configSection ctx st) = Inl e)) \<and>
         ((\<exists>cfg. configSection = Some cfg \<and> (\<forall>pair \<in> set cfg. well_formed pf pair) \<and>
             \<not> final_yesno pf ''enable_v4'' True cfg \<and> \<not> final_yesno pf ''enable_v6'' True cfg) \<longrightarrow>
            fst (processConfig pf configSection ctx st) =
              Inl (Error (''IPv4 and IPv6 TCP channels have been disabled. Remove '' @
                          ''face_system.tcp section to disable '' @
                          ''TCP channels or enable at least one channel type.'')))"
proof -
  have same: "snd (processConfig pf configSection ctx st) = st"
    using assms by (rule processConfig_dry_run_state)
  have frame: "m_channels (snd (processConfig pf configSection ctx st)) = m_channels st"
    "providedSchemes (snd (processConfig pf configSection ctx st)) = providedSchemes st"
    "channel_store (snd (processConfig pf configSection ctx st)) = channel_store st"
    by (simp_all only: same)
  have real: "fst (processConfig pf configSection ctx st) =
      fst (processConfig pf configSection (ctx\<lparr>isDryRun := False\<rparr>) st)"
    by (rule processConfig_result_independent_of_dry_run)
  have validation: "\<forall>cfg. configSection = Some cfg \<longrightarrow>
      ((\<exists>e. fst (processConfig pf configSection ctx st) = Inl e) \<longleftrightarrow>
       (\<exists>pair \<in> set cfg. \<not> well_formed pf pair) \<or>
       (\<not> final_yesno pf ''enable_v4'' True cfg \<and> \<not> final_yesno pf ''enable_v6'' True cfg))"
  proof (intro allI impI)
    fix cfg
    assume "configSection = Some cfg"
    then show "(\<exists>e. fst (processConfig pf configSection ctx st) = Inl e) \<longleftrightarrow>
       (\<exists>pair \<in> set cfg. \<not> well_formed pf pair) \<or>
       (\<not> final_yesno pf ''enable_v4'' True cfg \<and> \<not> final_yesno pf ''enable_v6'' True cfg)"
      using processConfig_validation [of pf cfg ctx st] by simp
  qed
  have key: "(\<exists>cfg. configSection = Some cfg \<and>
             (\<exists>pair \<in> set cfg. fst pair \<notin> {''listen'', ''port'', ''enable_v4'', ''enable_v6''})) \<longrightarrow>
            (\<exists>e. fst (processConfig pf configSection ctx st) = Inl e)"
  proof
    assume "\<exists>cfg. configSection = Some cfg \<and>
             (\<exists>pair \<in> set cfg. fst pair \<notin> {''listen'', ''port'', ''enable_v4'', ''enable_v6''})"
    then obtain cfg where cfg: "configSection = Some cfg"
      and "\<exists>pair \<in> set cfg. fst pair \<notin> {''listen'', ''port'', ''enable_v4'', ''enable_v6''}"
      by blast
    then obtain e where "processConfig_loop pf cfg (True, 6363, True, True) = Inl e"
      using processConfig_loop_unrecognized by blast
    then have "processConfig pf (Some cfg) ctx st = (Inl e, st)"
      by (rule processConfig_loop_error)
    then show "\<exists>e. fst (processConfig pf configSection ctx st) = Inl e"
      by (simp add: cfg)
  qed
  have disabled: "(\<exists>cfg. configSection = Some cfg \<and> (\<forall>pair \<in> set cfg. well_formed pf pair) \<and>
             \<not> final_yesno pf ''enable_v4'' True cfg \<and> \<not> final_yesno pf ''enable_v6'' True cfg) \<longrightarrow>
            fst (processConfig pf configSection ctx st) =
              Inl (Error (''IPv4 and IPv6 TCP channels have been disabled. Remove '' @
                          ''face_system.tcp section to disable '' @
                          ''TCP channels or enable at least one channel type.''))"
  proof
    assume "\<exists>cfg. configSection = Some cfg \<and> (\<forall>pair \<in> set cfg. well_formed pf pair) \<and>
             \<not> final_yesno pf ''enable_v4'' True cfg \<and> \<not> final_yesno pf ''enable_v6'' True cfg"
    then obtain cfg where cfg: "configSection = Some cfg"
      and ok: "\<forall>pair \<in> set cfg. well_formed pf pair"
      and off: "\<not> final_yesno pf ''enable_v4'' True cfg" "\<not> final_yesno pf ''enable_v6'' True cfg"
      by blast
    show "fst (processConfig pf configSection ctx st) =
              Inl (Error (''IPv4 and IPv6 TCP channels have been disabled. Remove '' @
                          ''face_system.tcp section to disable '' @
                          ''TCP channels or enable at least one channel type.''))"
      unfolding cfg processConfig_section_disabled [OF ok off] by simp
  qed
  show ?thesis
    by (rule conjI [OF same conjI [OF frame(1) conjI [OF frame(2) conjI [OF frame(3)
          conjI [OF real conjI [OF validation conjI [OF key disabled]]]]]]])
qed

text \<open>
  On the sample platform with the dry-run flag: the section \<open>listen yes, port 6363\<close>
  applied to the empty factory returns without error and leaves the factory empty, while the
  same call without the flag registers the two wildcard channels. In a factory that has the
  IPv4 channel at port 6363, the section that sets \<open>enable_v4\<close> and \<open>enable_v6\<close> to
  \<open>no\<close> throws the error about the disabled channels and leaves the factory as it was.
  The section \<open>listen maybe\<close> throws, and so does a section with the key \<open>colour\<close>.
\<close>

theorem processConfig_dry_run_witness:
  "processConfig sample_platform (Some [(''listen'', ''yes''), (''port'', ''6363'')])
     \<lparr>isDryRun = True, addFace = 7\<rparr> empty_factory = (Inr (), empty_factory) \<and>
   m_channels (snd (processConfig sample_platform (Some [(''listen'', ''yes''), (''port'', ''6363'')])
     \<lparr>isDryRun = False, addFace = 7\<rparr> empty_factory)) =
     [(Endpoint (V4 address_v4_any) 6363, 0), (Endpoint (V6 address_v6_any) 6363, 1)] \<and>
   processConfig sample_platform (Some [(''enable_v4'', ''no''), (''enable_v6'', ''no'')])
     \<lparr>isDryRun = True, addFace = 7\<rparr>
     (empty_factory\<lparr>m_channels := [(Endpoint (V4 address_v4_any) 6363, 0)],
        providedSchemes := {''tcp'', ''tcp4''}, next_ref := 1\<rparr>) =
     (Inl (Error (''IPv4 and IPv6 TCP channels have been disabled. Remove '' @
                  ''face_system.tcp section to disable '' @
                  ''TCP channels or enable at least one channel type.'')),
      empty_factory\<lparr>m_channels := [(Endpoint (V4 address_v4_any) 6363, 0)],
        providedSchemes := {''tcp'', ''tcp4''}, next_ref := 1\<rparr>) \<and>
   (\<exists>e. fst (processConfig sample_platform (Some [(''listen'', ''maybe'')])
     \<lparr>isDryRun = True, addFace = 7\<rparr> empty_factory) = Inl e) \<and>
   (\<exists>e. fst (processConfig sample_platform (Some [(''colour'', ''red'')])
     \<lparr>isDryRun = True, addFace = 7\<rparr> empty_factory) = Inl e)"
proof -
  let ?cfg = "[(''listen'', ''yes''), (''port'', ''6363'')]"
  let ?off = "[(''enable_v4'', ''no''), (''enable_v6'', ''no'')]"
  let ?dry = "\<lparr>isDryRun = True, addFace = 7\<rparr>"
  let ?st = "empty_factory\<lparr>m_channels := [(Endpoint (V4 address_v4_any) 6363, 0)],
        providedSchemes := {''tcp'', ''tcp4''}, next_ref := 1\<rparr>"
  have dry: "isDryRun ?dry"
    by simp
  note run = processConfig_dry_run [OF dry, of sample_platform]
  have yesno: "parseYesNo sample_platform = sample_parseYesNo"
    and number: "parseNumber_uint16 sample_platform = sample_parseNumber"
    by (simp_all add: sample_platform_def)
  have ok: "\<forall>pair \<in> set ?cfg. well_formed sample_platform pair"
    by (simp add: well_formed_def yesno number sample_parseYesNo_def sample_parseNumber_def
          sample_lexical_cast_def)
  have on: "final_yesno sample_platform ''enable_v4'' True ?cfg"
    by (simp add: final_yesno_def)
  have "\<not> (\<exists>e. fst (processConfig sample_platform (Some ?cfg) ?dry empty_factory) = Inl e)"
    using run [of "Some ?cfg" empty_factory] ok on by blast
  then have "fst (processConfig sample_platform (Some ?cfg) ?dry empty_factory) = Inr ()"
    by (cases "fst (processConfig sample_platform (Some ?cfg) ?dry empty_factory)") simp_all
  moreover have "snd (processConfig sample_platform (Some ?cfg) ?dry empty_factory) = empty_factory"
    using run [of "Some ?cfg" empty_factory] by (rule conjunct1)
  ultimately have 1: "processConfig sample_platform (Some ?cfg) ?dry empty_factory = (Inr (), empty_factory)"
    by (simp add: prod_eq_iff)
  have less: "endpoint_less sample_platform = sample_endpoint_less"
    by (simp add: sample_platform_def)
  have loop: "processConfig_loop sample_platform ?cfg (True, 6363, True, True) = Inr (True, 6363, True, True)"
    by (simp add: processConfig_body_def yesno number sample_parseYesNo_def
          sample_parseNumber_def sample_lexical_cast_def)
  have 2: "m_channels (snd (processConfig sample_platform (Some ?cfg)
     \<lparr>isDryRun = False, addFace = 7\<rparr> empty_factory)) =
     [(Endpoint (V4 address_v4_any) 6363, 0), (Endpoint (V6 address_v6_any) 6363, 1)]"
    by (simp add: processConfig_def loop createChannel_def findChannel_def Let_def
          prohibitEndpoint_fields listen_def empty_factory_def less
          sample_endpoint_less_def address_v4_any_def address_v6_any_def
          del: processConfig_loop.simps)
  have off_ok: "\<forall>pair \<in> set ?off. well_formed sample_platform pair"
    by (simp add: well_formed_def yesno sample_parseYesNo_def)
  have off4: "\<not> final_yesno sample_platform ''enable_v4'' True ?off"
    and off6: "\<not> final_yesno sample_platform ''enable_v6'' True ?off"
    by (simp_all add: final_yesno_def yesno sample_parseYesNo_def)
  have "fst (processConfig sample_platform (Some ?off) ?dry ?st) =
      Inl (Error (''IPv4 and IPv6 TCP channels have been disabled. Remove '' @
                  ''face_system.tcp section to disable '' @
                  ''TCP channels or enable at least one channel type.''))"
    using run [of "Some ?off" ?st] off_ok off4 off6 by blast
  moreover have "snd (processConfig sample_platform (Some ?off) ?dry ?st) = ?st"
    using run [of "Some ?off" ?st] by (rule conjunct1)
  ultimately have 3: "processConfig sample_platform (Some ?off) ?dry ?st =
     (Inl (Error (''IPv4 and IPv6 TCP channels have been disabled. Remove '' @
                  ''face_system.tcp section to disable '' @
                  ''TCP channels or enable at least one channel type.'')), ?st)"
    by (simp only: prod_eq_iff fst_conv snd_conv simp_thms)
  have bad: "\<exists>pair \<in> set [(''listen'', ''maybe'')]. \<not> well_formed sample_platform pair"
    by (simp add: well_formed_def yesno sample_parseYesNo_def)
  have 4: "\<exists>e. fst (processConfig sample_platform (Some [(''listen'', ''maybe'')]) ?dry empty_factory) = Inl e"
    using run [of "Some [(''listen'', ''maybe'')]" empty_factory] bad by blast
  have "\<exists>cfg. Some [(''colour'', ''red'')] = Some cfg \<and>
      (\<exists>pair \<in> set cfg. fst pair \<notin> {''listen'', ''port'', ''enable_v4'', ''enable_v6''})"
    by simp
  then have 5: "\<exists>e. fst (processConfig sample_platform (Some [(''colour'', ''red'')]) ?dry empty_factory) = Inl e"
    using run [of "Some [(''colour'', ''red'')]" empty_factory] by blast
  show ?thesis
    by (rule conjI [OF 1 conjI [OF 2 conjI [OF 3 conjI [OF 4 5]]]])
qed

section \<open>The rejection gates of createFace\<close>

lemma createFace_resolved:
  "isCanonical remoteUri \<Longrightarrow> localUri = None \<Longrightarrow> persistency \<noteq> FACE_PERSISTENCY_ON_DEMAND \<Longrightarrow>
   resolve pf remoteUri = Some endpoint \<Longrightarrow>
   createFace pf st remoteUri localUri persistency wantLocalFieldsEnabled onCreated onFailure =
     (if is_multicast pf (address endpoint) then
        OnFailure onFailure 406 ''Cannot create multicast TCP faces''
      else if endpoint \<in> m_prohibitedEndpoints st then
        OnFailure onFailure 406 ''Requested endpoint is prohibited''
      else if wantLocalFieldsEnabled \<and> \<not> is_loopback pf (address endpoint) then
        OnFailure onFailure 406 ''Local fields can only be enabled on faces with local scope''
      else createFace_loop (m_channels st) endpoint persistency wantLocalFieldsEnabled
             onCreated onFailure)"
  by (auto simp: createFace_def resolve_def Let_def split: option.splits)

lemma createFace_unresolved:
  "isCanonical remoteUri \<Longrightarrow> localUri = None \<Longrightarrow> persistency \<noteq> FACE_PERSISTENCY_ON_DEMAND \<Longrightarrow>
   resolve pf remoteUri = None \<Longrightarrow>
   createFace pf st remoteUri localUri persistency wantLocalFieldsEnabled onCreated onFailure =
     Throws (if from_string pf (getHost remoteUri) = None then system_error else bad_lexical_cast)"
  by (auto simp: createFace_def resolve_def split: option.splits)

lemma createFace_gate1:
  "isCanonical remoteUri \<Longrightarrow> localUri \<noteq> None \<Longrightarrow>
   createFace pf st remoteUri localUri persistency wantLocalFieldsEnabled onCreated onFailure =
     OnFailure onFailure 406 ''Unicast TCP faces cannot be created with a LocalUri''"
  by (simp add: createFace_def)

lemma createFace_gate2:
  "isCanonical remoteUri \<Longrightarrow> localUri = None \<Longrightarrow> persistency = FACE_PERSISTENCY_ON_DEMAND \<Longrightarrow>
   createFace pf st remoteUri localUri persistency wantLocalFieldsEnabled onCreated onFailure =
     OnFailure onFailure 406 ''Outgoing TCP faces do not support on-demand persistency''"
  by (simp add: createFace_def)

text \<open>
  C1. A call of \<^verbatim>\<open>createFace\<close> with a canonical remote URI whose request violates rejection
  gates reports, through the failure callback, the code and the reason of the earliest
  violated gate in the order 1 (local URI present), 2 (on-demand persistency), 4 (multicast
  address), 5 (prohibited endpoint), 6 (local fields on a non-loopback address), whatever
  later gates the request violates as well. In particular a request with a local URI and
  on-demand persistency is rejected for the local URI.
\<close>

theorem createFace_gate_order:
  assumes "isCanonical remoteUri"
    and "violates pf st remoteUri localUri persistency wantLocalFieldsEnabled g"
    and "\<forall>g'. gate_number g' < gate_number g \<longrightarrow>
           \<not> violates pf st remoteUri localUri persistency wantLocalFieldsEnabled g'"
  shows "createFace pf st remoteUri localUri persistency wantLocalFieldsEnabled onCreated onFailure =
           OnFailure onFailure (fst (rejection g)) (snd (rejection g))"
proof -
  note earlier = assms(3) [rule_format]
  show ?thesis
  proof (cases g)
    case Gate1
    with assms(1,2) show ?thesis by (simp add: createFace_gate1)
  next
    case Gate2
    with earlier [of Gate1] have "localUri = None" by simp
    with Gate2 assms(1,2) show ?thesis by (simp add: createFace_gate2)
  next
    case Gate4
    with earlier [of Gate1] earlier [of Gate2]
    have pre: "localUri = None" "persistency \<noteq> FACE_PERSISTENCY_ON_DEMAND" by simp_all
    from Gate4 assms(2) obtain endpoint where
      "resolve pf remoteUri = Some endpoint" "is_multicast pf (address endpoint)"
      by (auto split: option.splits)
    with Gate4 show ?thesis
      by (simp add: createFace_resolved [OF assms(1) pre])
  next
    case Gate5
    with earlier [of Gate1] earlier [of Gate2]
    have pre: "localUri = None" "persistency \<noteq> FACE_PERSISTENCY_ON_DEMAND" by simp_all
    from Gate5 assms(2) obtain endpoint where
      r: "resolve pf remoteUri = Some endpoint" and "endpoint \<in> m_prohibitedEndpoints st"
      by (auto split: option.splits)
    moreover from Gate5 earlier [of Gate4] r have "\<not> is_multicast pf (address endpoint)"
      by simp
    ultimately show ?thesis
      using Gate5 by (simp add: createFace_resolved [OF assms(1) pre])
  next
    case Gate6
    with earlier [of Gate1] earlier [of Gate2]
    have pre: "localUri = None" "persistency \<noteq> FACE_PERSISTENCY_ON_DEMAND" by simp_all
    from Gate6 assms(2) obtain endpoint where
      r: "resolve pf remoteUri = Some endpoint"
      and "wantLocalFieldsEnabled \<and> \<not> is_loopback pf (address endpoint)"
      by (auto split: option.splits)
    moreover from Gate6 earlier [of Gate4] r have "\<not> is_multicast pf (address endpoint)"
      by simp
    moreover from Gate6 earlier [of Gate5] r have "endpoint \<notin> m_prohibitedEndpoints st"
      by simp
    ultimately show ?thesis
      using Gate6 by (simp add: createFace_resolved [OF assms(1) pre])
  qed
qed

text \<open>
  On the sample platform: a request for the multicast address 224.0.0.1 with a local URI,
  on-demand persistency and local fields violates gates 1, 2, 4 and 6 and is rejected for
  the local URI; without the local URI and with persistent persistency it violates gates 4
  and 6 and is rejected as multicast.
\<close>

theorem createFace_gate_order_witness:
  "violates sample_platform empty_factory (sample_uri ''224.0.0.1'' ''6363'')
     (Some (sample_uri ''127.0.0.1'' ''6363'')) FACE_PERSISTENCY_ON_DEMAND True Gate2 \<and>
   violates sample_platform empty_factory (sample_uri ''224.0.0.1'' ''6363'')
     (Some (sample_uri ''127.0.0.1'' ''6363'')) FACE_PERSISTENCY_ON_DEMAND True Gate4 \<and>
   createFace sample_platform empty_factory (sample_uri ''224.0.0.1'' ''6363'')
     (Some (sample_uri ''127.0.0.1'' ''6363'')) FACE_PERSISTENCY_ON_DEMAND True 8 9 =
     OnFailure 9 406 ''Unicast TCP faces cannot be created with a LocalUri'' \<and>
   violates sample_platform empty_factory (sample_uri ''224.0.0.1'' ''6363'')
     None FACE_PERSISTENCY_PERSISTENT True Gate6 \<and>
   createFace sample_platform empty_factory (sample_uri ''224.0.0.1'' ''6363'')
     None FACE_PERSISTENCY_PERSISTENT True 8 9 =
     OnFailure 9 406 ''Cannot create multicast TCP faces''"
proof -
  let ?remote = "sample_uri ''224.0.0.1'' ''6363''"
  let ?local = "Some (sample_uri ''127.0.0.1'' ''6363'')"
  have canonical: "isCanonical ?remote"
    by (simp add: sample_uri_def)
  have r: "resolve sample_platform ?remote = Some (Endpoint (V4 0xE0000001) 6363)"
    by (simp add: resolve_def sample_uri_def sample_platform_def sample_from_string_def
          sample_lexical_cast_def)
  have multicast: "is_multicast sample_platform (V4 0xE0000001)"
    by (simp add: sample_platform_def)
  have loopback: "\<not> is_loopback sample_platform (V4 0xE0000001)"
    by (simp add: sample_platform_def)
  have v1: "violates sample_platform empty_factory ?remote ?local FACE_PERSISTENCY_ON_DEMAND True Gate1"
    by simp
  have v2: "violates sample_platform empty_factory ?remote ?local FACE_PERSISTENCY_ON_DEMAND True Gate2"
    by simp
  have v4: "violates sample_platform empty_factory ?remote ?local FACE_PERSISTENCY_ON_DEMAND True Gate4"
    by (simp add: r multicast)
  have first1: "\<forall>g'. gate_number g' < gate_number Gate1 \<longrightarrow>
      \<not> violates sample_platform empty_factory ?remote ?local FACE_PERSISTENCY_ON_DEMAND True g'"
  proof (intro allI impI)
    fix g'
    assume "gate_number g' < gate_number Gate1"
    then show "\<not> violates sample_platform empty_factory ?remote ?local FACE_PERSISTENCY_ON_DEMAND True g'"
      by (cases g') simp_all
  qed
  have c1: "createFace sample_platform empty_factory ?remote ?local FACE_PERSISTENCY_ON_DEMAND True 8 9 =
      OnFailure 9 406 ''Unicast TCP faces cannot be created with a LocalUri''"
    using createFace_gate_order [OF canonical v1 first1, of 8 9] by simp
  have w4: "violates sample_platform empty_factory ?remote None FACE_PERSISTENCY_PERSISTENT True Gate4"
    by (simp add: r multicast)
  have w6: "violates sample_platform empty_factory ?remote None FACE_PERSISTENCY_PERSISTENT True Gate6"
    by (simp add: r loopback)
  have first4: "\<forall>g'. gate_number g' < gate_number Gate4 \<longrightarrow>
      \<not> violates sample_platform empty_factory ?remote None FACE_PERSISTENCY_PERSISTENT True g'"
  proof (intro allI impI)
    fix g'
    assume "gate_number g' < gate_number Gate4"
    then show "\<not> violates sample_platform empty_factory ?remote None FACE_PERSISTENCY_PERSISTENT True g'"
      by (cases g') simp_all
  qed
  have c4: "createFace sample_platform empty_factory ?remote None FACE_PERSISTENCY_PERSISTENT True 8 9 =
      OnFailure 9 406 ''Cannot create multicast TCP faces''"
    using createFace_gate_order [OF canonical w4 first4, of 8 9] by simp
  show ?thesis
    by (rule conjI [OF v2 conjI [OF v4 conjI [OF c1 conjI [OF w6 c4]]]])
qed

section \<open>Channel selection\<close>

lemma is_v6_iff: "is_v6 a \<longleftrightarrow> \<not> is_v4 a"
  by (cases a) simp_all

lemma family_condition:
  "(is_v4 (address x) \<and> is_v4 (address y)) \<or> (is_v6 (address x) \<and> is_v6 (address y)) \<longleftrightarrow>
   same_family x y"
  by (auto simp: same_family_def is_v6_iff)

lemma createFace_loop_first:
  "(\<exists>n < length chans.
      same_family (fst (chans ! n)) endpoint \<and>
      (\<forall>j < n. \<not> same_family (fst (chans ! j)) endpoint) \<and>
      createFace_loop chans endpoint persistency w onCreated onFailure =
        Connect (snd (chans ! n)) endpoint persistency w onCreated onFailure) \<or>
   ((\<forall>i \<in> set chans. \<not> same_family (fst i) endpoint) \<and>
    createFace_loop chans endpoint persistency w onCreated onFailure =
      OnFailure onFailure 504 ''No channels available to connect'')"
proof (induction chans)
  case Nil
  show ?case by simp
next
  case (Cons i rest)
  show ?case
  proof (cases "same_family (fst i) endpoint")
    case True
    then have "createFace_loop (i # rest) endpoint persistency w onCreated onFailure =
        Connect (snd ((i # rest) ! 0)) endpoint persistency w onCreated onFailure"
      by (simp add: family_condition)
    moreover have "same_family (fst ((i # rest) ! 0)) endpoint"
      using True by simp
    ultimately have "\<exists>n < length (i # rest).
      same_family (fst ((i # rest) ! n)) endpoint \<and>
      (\<forall>j < n. \<not> same_family (fst ((i # rest) ! j)) endpoint) \<and>
      createFace_loop (i # rest) endpoint persistency w onCreated onFailure =
        Connect (snd ((i # rest) ! n)) endpoint persistency w onCreated onFailure"
      by (intro exI [of _ 0]) simp
    then show ?thesis ..
  next
    case False
    then have step: "createFace_loop (i # rest) endpoint persistency w onCreated onFailure =
        createFace_loop rest endpoint persistency w onCreated onFailure"
      by (simp add: family_condition)
    from Cons.IH show ?thesis
    proof
      assume "\<exists>n < length rest.
        same_family (fst (rest ! n)) endpoint \<and>
        (\<forall>j < n. \<not> same_family (fst (rest ! j)) endpoint) \<and>
        createFace_loop rest endpoint persistency w onCreated onFailure =
          Connect (snd (rest ! n)) endpoint persistency w onCreated onFailure"
      then obtain n where n: "n < length rest" "same_family (fst (rest ! n)) endpoint"
        "\<forall>j < n. \<not> same_family (fst (rest ! j)) endpoint"
        "createFace_loop rest endpoint persistency w onCreated onFailure =
          Connect (snd (rest ! n)) endpoint persistency w onCreated onFailure"
        by blast
      have before: "\<forall>j < Suc n. \<not> same_family (fst ((i # rest) ! j)) endpoint"
      proof (intro allI impI)
        fix j
        assume "j < Suc n"
        then show "\<not> same_family (fst ((i # rest) ! j)) endpoint"
          using False n(3) by (cases j) simp_all
      qed
      have "Suc n < length (i # rest) \<and>
        same_family (fst ((i # rest) ! Suc n)) endpoint \<and>
        (\<forall>j < Suc n. \<not> same_family (fst ((i # rest) ! j)) endpoint) \<and>
        createFace_loop (i # rest) endpoint persistency w onCreated onFailure =
          Connect (snd ((i # rest) ! Suc n)) endpoint persistency w onCreated onFailure"
        using n(1,2,4) before step by simp
      then show ?thesis by blast
    next
      assume "(\<forall>i \<in> set rest. \<not> same_family (fst i) endpoint) \<and>
        createFace_loop rest endpoint persistency w onCreated onFailure =
          OnFailure onFailure 504 ''No channels available to connect''"
      then have "(\<forall>k \<in> set (i # rest). \<not> same_family (fst k) endpoint) \<and>
        createFace_loop (i # rest) endpoint persistency w onCreated onFailure =
          OnFailure onFailure 504 ''No channels available to connect''"
        using False step by simp
      then show ?thesis ..
    qed
  qed
qed

lemma passes_gates:
  assumes "\<forall>g. \<not> violates pf st remoteUri localUri persistency wantLocalFieldsEnabled g"
    and "resolve pf remoteUri = Some endpoint"
  shows "localUri = None" "persistency \<noteq> FACE_PERSISTENCY_ON_DEMAND"
    "\<not> is_multicast pf (address endpoint)" "endpoint \<notin> m_prohibitedEndpoints st"
    "\<not> (wantLocalFieldsEnabled \<and> \<not> is_loopback pf (address endpoint))"
  using assms(1) [rule_format, of Gate1] assms(1) [rule_format, of Gate2]
    assms(1) [rule_format, of Gate4] assms(1) [rule_format, of Gate5]
    assms(1) [rule_format, of Gate6] assms(2)
  by simp_all

text \<open>
  C7. A call of \<^verbatim>\<open>createFace\<close> with a canonical remote URI that resolves and that passes
  all policy gates either calls \<^verbatim>\<open>connect\<close> on the first channel of the registry, in its
  iteration order, whose local address is of the family of the resolved endpoint, with that
  endpoint, the persistency, the local-fields flag and both callbacks, or, when the
  registry has no channel of that family, calls the failure callback with code 504. The
  failure callback is called with 504 if and only if no channel of that family is
  registered.
\<close>

theorem createFace_channel_selection:
  assumes "isCanonical remoteUri"
    and "\<forall>g. \<not> violates pf st remoteUri localUri persistency wantLocalFieldsEnabled g"
    and "resolve pf remoteUri = Some endpoint"
  shows "((\<exists>n < length (m_channels st).
             same_family (fst (m_channels st ! n)) endpoint \<and>
             (\<forall>j < n. \<not> same_family (fst (m_channels st ! j)) endpoint) \<and>
             createFace pf st remoteUri localUri persistency wantLocalFieldsEnabled onCreated onFailure =
               Connect (snd (m_channels st ! n)) endpoint persistency wantLocalFieldsEnabled
                 onCreated onFailure) \<or>
          ((\<forall>i \<in> set (m_channels st). \<not> same_family (fst i) endpoint) \<and>
           createFace pf st remoteUri localUri persistency wantLocalFieldsEnabled onCreated onFailure =
             OnFailure onFailure 504 ''No channels available to connect'')) \<and>
         ((\<exists>cb reason.
             createFace pf st remoteUri localUri persistency wantLocalFieldsEnabled onCreated onFailure =
               OnFailure cb 504 reason) \<longleftrightarrow>
          (\<forall>i \<in> set (m_channels st). \<not> same_family (fst i) endpoint))"
proof -
  note gates = passes_gates [OF assms(2,3)]
  have run: "createFace pf st remoteUri localUri persistency wantLocalFieldsEnabled onCreated onFailure =
      createFace_loop (m_channels st) endpoint persistency wantLocalFieldsEnabled onCreated onFailure"
    using gates(3,4,5) by (auto simp: createFace_resolved [OF assms(1) gates(1,2) assms(3)])
  note first = createFace_loop_first
    [of "m_channels st" endpoint persistency wantLocalFieldsEnabled onCreated onFailure,
     folded run]
  have iff: "(\<exists>cb reason.
             createFace pf st remoteUri localUri persistency wantLocalFieldsEnabled onCreated onFailure =
               OnFailure cb 504 reason) \<longleftrightarrow>
          (\<forall>i \<in> set (m_channels st). \<not> same_family (fst i) endpoint)"
  proof
    assume "\<exists>cb reason.
      createFace pf st remoteUri localUri persistency wantLocalFieldsEnabled onCreated onFailure =
        OnFailure cb 504 reason"
    with first show "\<forall>i \<in> set (m_channels st). \<not> same_family (fst i) endpoint"
      by auto
  next
    assume none: "\<forall>i \<in> set (m_channels st). \<not> same_family (fst i) endpoint"
    from first show "\<exists>cb reason.
      createFace pf st remoteUri localUri persistency wantLocalFieldsEnabled onCreated onFailure =
        OnFailure cb 504 reason"
    proof
      assume "\<exists>n < length (m_channels st).
             same_family (fst (m_channels st ! n)) endpoint \<and>
             (\<forall>j < n. \<not> same_family (fst (m_channels st ! j)) endpoint) \<and>
             createFace pf st remoteUri localUri persistency wantLocalFieldsEnabled onCreated onFailure =
               Connect (snd (m_channels st ! n)) endpoint persistency wantLocalFieldsEnabled
                 onCreated onFailure"
      then obtain n where "n < length (m_channels st)" "same_family (fst (m_channels st ! n)) endpoint"
        by blast
      with none show ?thesis
        using nth_mem by blast
    next
      assume "(\<forall>i \<in> set (m_channels st). \<not> same_family (fst i) endpoint) \<and>
           createFace pf st remoteUri localUri persistency wantLocalFieldsEnabled onCreated onFailure =
             OnFailure onFailure 504 ''No channels available to connect''"
      then show ?thesis by blast
    qed
  qed
  show ?thesis
    by (rule conjI [OF first iff])
qed

text \<open>
  On the sample platform, in a factory with the IPv4 and the IPv6 wildcard channel at port
  6363, a request for ::1 at port 80 with local fields passes every gate and is connected
  through channel 1, the first IPv6 channel of the registry; in the empty factory a request
  for 192.0.2.1 at port 80 is rejected with code 504.
\<close>

theorem createFace_channel_selection_witness:
  "createFace sample_platform
     (empty_factory\<lparr>m_channels :=
        [(Endpoint (V4 address_v4_any) 6363, 0), (Endpoint (V6 address_v6_any) 6363, 1)],
        m_prohibitedEndpoints :=
          {Endpoint (V4 address_v4_any) 6363, Endpoint (V6 address_v6_any) 6363}\<rparr>)
     (sample_uri ''::1'' ''80'') None FACE_PERSISTENCY_PERSISTENT True 8 9 =
     Connect 1 (Endpoint (V6 (1, 0)) 80) FACE_PERSISTENCY_PERSISTENT True 8 9 \<and>
   createFace sample_platform empty_factory
     (sample_uri ''192.0.2.1'' ''80'') None FACE_PERSISTENCY_PERSISTENT False 8 9 =
     OnFailure 9 504 ''No channels available to connect''"
proof -
  let ?st = "empty_factory\<lparr>m_channels :=
        [(Endpoint (V4 address_v4_any) 6363, 0), (Endpoint (V6 address_v6_any) 6363, 1)],
        m_prohibitedEndpoints :=
          {Endpoint (V4 address_v4_any) 6363, Endpoint (V6 address_v6_any) 6363}\<rparr>"
  let ?remote6 = "sample_uri ''::1'' ''80''"
  let ?remote4 = "sample_uri ''192.0.2.1'' ''80''"
  have canonical: "isCanonical ?remote6" "isCanonical ?remote4"
    by (simp_all add: sample_uri_def)
  have r6: "resolve sample_platform ?remote6 = Some (Endpoint (V6 (1, 0)) 80)"
    by (simp add: resolve_def sample_uri_def sample_platform_def sample_from_string_def
          sample_lexical_cast_def)
  have r4: "resolve sample_platform ?remote4 = Some (Endpoint (V4 0xC0000201) 80)"
    by (simp add: resolve_def sample_uri_def sample_platform_def sample_from_string_def
          sample_lexical_cast_def)
  have flags: "\<not> is_multicast sample_platform (V6 (1, 0))" "is_loopback sample_platform (V6 (1, 0))"
    "\<not> is_multicast sample_platform (V4 0xC0000201)"
    by (simp_all add: sample_platform_def word_le_nat_alt)
  have pass6: "\<forall>g. \<not> violates sample_platform ?st ?remote6 None FACE_PERSISTENCY_PERSISTENT True g"
  proof
    fix g
    show "\<not> violates sample_platform ?st ?remote6 None FACE_PERSISTENCY_PERSISTENT True g"
      by (cases g) (simp_all add: r6 flags)
  qed
  have pass4: "\<forall>g. \<not> violates sample_platform empty_factory ?remote4 None FACE_PERSISTENCY_PERSISTENT False g"
  proof
    fix g
    show "\<not> violates sample_platform empty_factory ?remote4 None FACE_PERSISTENCY_PERSISTENT False g"
      by (cases g) (simp_all add: r4 flags empty_factory_def)
  qed
  have chans: "m_channels ?st =
      [(Endpoint (V4 address_v4_any) 6363, 0), (Endpoint (V6 address_v6_any) 6363, 1)]"
    by simp
  have not0: "\<not> same_family (Endpoint (V4 address_v4_any) 6363) (Endpoint (V6 (1, 0)) 80)"
    by (simp add: same_family_def)
  have 1: "createFace sample_platform ?st ?remote6 None FACE_PERSISTENCY_PERSISTENT True 8 9 =
      Connect 1 (Endpoint (V6 (1, 0)) 80) FACE_PERSISTENCY_PERSISTENT True 8 9"
    using createFace_channel_selection [OF canonical(1) pass6 r6, of 8 9] not0
    unfolding chans
    by (auto simp: less_Suc_eq same_family_def)
  have 2: "createFace sample_platform empty_factory ?remote4 None FACE_PERSISTENCY_PERSISTENT False 8 9 =
      OnFailure 9 504 ''No channels available to connect''"
    using createFace_channel_selection [OF canonical(2) pass4 r4, of 8 9]
    by (simp add: empty_factory_def)
  show ?thesis
    by (rule conjI [OF 1 2])
qed

section \<open>Resolution failure\<close>

text \<open>
  C8, as stated, fails where an earlier gate rejects the request: on the sample platform the
  port \<open>99999\<close> does not resolve, and a request with that port and a local URI is rejected
  through the failure callback with code 406; nothing is thrown.
\<close>

theorem createFace_resolution_failure_counterexample:
  "resolve sample_platform (sample_uri ''192.0.2.1'' ''99999'') = None \<and>
   createFace sample_platform empty_factory (sample_uri ''192.0.2.1'' ''99999'')
     (Some (sample_uri ''127.0.0.1'' ''6363'')) FACE_PERSISTENCY_PERSISTENT False 8 9 =
     OnFailure 9 406 ''Unicast TCP faces cannot be created with a LocalUri''"
  by (simp add: resolve_def createFace_def sample_uri_def sample_platform_def
        sample_from_string_def sample_lexical_cast_def)

text \<open>
  C8, amended. A call of \<^verbatim>\<open>createFace\<close> with a canonical remote URI, no local URI and a
  persistency other than on-demand, whose remote host or port does not resolve into an
  Endpoint, throws: the failure callback is not called, with 406, 504 or any other code, and
  \<^verbatim>\<open>connect\<close> is not called. The gates after the resolution are not reached: the outcome
  is the same for every set of prohibited endpoints, every registry, every local-fields
  flag and every multicast and loopback predicate.
\<close>

theorem createFace_resolution_failure_throws:
  assumes "isCanonical remoteUri"
    and "localUri = None"
    and "persistency \<noteq> FACE_PERSISTENCY_ON_DEMAND"
    and "resolve pf remoteUri = None"
  shows "(\<exists>e. createFace pf st remoteUri localUri persistency wantLocalFieldsEnabled onCreated onFailure =
              Throws e) \<and>
         (\<forall>cb code reason.
            createFace pf st remoteUri localUri persistency wantLocalFieldsEnabled onCreated onFailure \<noteq>
              OnFailure cb code reason) \<and>
         (\<forall>ch ep p w c f.
            createFace pf st remoteUri localUri persistency wantLocalFieldsEnabled onCreated onFailure \<noteq>
              Connect ch ep p w c f) \<and>
         (\<forall>st' w' m l.
            createFace (pf\<lparr>is_multicast := m, is_loopback := l\<rparr>) st' remoteUri localUri persistency w'
              onCreated onFailure =
            createFace pf st remoteUri localUri persistency wantLocalFieldsEnabled onCreated onFailure)"
proof -
  let ?e = "if from_string pf (getHost remoteUri) = None then system_error else bad_lexical_cast"
  have thrown: "\<And>pf' st' w'. resolve pf' remoteUri = resolve pf remoteUri \<Longrightarrow>
      from_string pf' = from_string pf \<Longrightarrow>
      createFace pf' st' remoteUri localUri persistency w' onCreated onFailure = Throws ?e"
    using createFace_unresolved [OF assms(1,2,3)] assms(4) by simp
  have here: "createFace pf st remoteUri localUri persistency wantLocalFieldsEnabled onCreated onFailure =
      Throws ?e"
    by (rule thrown) simp_all
  have there: "\<forall>st' w' m l.
      createFace (pf\<lparr>is_multicast := m, is_loopback := l\<rparr>) st' remoteUri localUri persistency w'
        onCreated onFailure =
      createFace pf st remoteUri localUri persistency wantLocalFieldsEnabled onCreated onFailure"
    unfolding here by (intro allI thrown) (simp_all add: resolve_def cong: option.case_cong)
  show ?thesis
    using there by (simp add: here)
qed

text \<open>
  On the sample platform the request for 192.0.2.1 at port \<open>99999\<close>, without a local URI
  and persistent, throws the exception of the port conversion.
\<close>

theorem createFace_resolution_failure_throws_witness:
  "createFace sample_platform empty_factory (sample_uri ''192.0.2.1'' ''99999'')
     None FACE_PERSISTENCY_PERSISTENT False 8 9 = Throws bad_lexical_cast"
proof -
  let ?remote = "sample_uri ''192.0.2.1'' ''99999''"
  have canonical: "isCanonical ?remote"
    by (simp add: sample_uri_def)
  have persistent: "FACE_PERSISTENCY_PERSISTENT \<noteq> FACE_PERSISTENCY_ON_DEMAND"
    by simp
  have unresolved: "resolve sample_platform ?remote = None"
    by (simp add: resolve_def sample_uri_def sample_platform_def sample_from_string_def
          sample_lexical_cast_def)
  have host: "from_string sample_platform (getHost ?remote) \<noteq> None"
    by (simp add: sample_uri_def sample_platform_def sample_from_string_def)
  have lexical: "lexical_cast_uint16 sample_platform (getPort ?remote) = None"
    by (simp add: sample_uri_def sample_platform_def sample_lexical_cast_def)
  obtain e where e: "createFace sample_platform empty_factory ?remote None
      FACE_PERSISTENCY_PERSISTENT False 8 9 = Throws e"
    using createFace_resolution_failure_throws [OF canonical refl persistent unresolved, of empty_factory False 8 9]
    by blast
  have "e = bad_lexical_cast"
    using e host lexical by (auto simp: createFace_def canonical split: option.splits)
  with e show ?thesis
    by simp
qed

section \<open>Properties of the face table\<close>

lemma add_fields:
  "m_lastFaceId (add face t) = m_lastFaceId t + 1"
  "m_id (face_store (add face t) face) = m_lastFaceId t + 1"
  "m_faces (add face t) = (m_faces t)(m_lastFaceId t + 1 \<mapsto> face)"
  "m_fib (add face t) = m_fib t"
  by (simp_all add: add_def Let_def)

lemma remove_fields:
  "m_lastFaceId (remove INVALID_FACEID face t) = m_lastFaceId t"
  "m_id (face_store (remove INVALID_FACEID face t) face) = INVALID_FACEID"
  "m_faces (remove INVALID_FACEID face t) = (m_faces t)(m_id (face_store t face) := None)"
  "onReceiveInterest (face_store (remove INVALID_FACEID face t) face) = []"
  "onReceiveData (face_store (remove INVALID_FACEID face t) face) = []"
  "m_fib (remove INVALID_FACEID face t) = removeNextHopFromAllEntries (m_fib t) face"
  by (simp_all add: remove_def Let_def)

lemma sint_succ:
  fixes x :: FaceId
  assumes "sint x < 2147483647"
  shows "sint (x + 1) = sint x + 1"
proof -
  have "- (2 ^ 31) \<le> sint x"
    using sint_ge [of x] by simp
  then have "signed_take_bit 31 (sint x + 1) = sint x + 1"
    using assms by (simp add: signed_take_bit_int_eq_self)
  then show ?thesis
    by (simp add: sint_word_ariths)
qed

lemma run_ids:
  "sint (m_lastFaceId t) + int (length (filter is_Add ops)) \<le> 2147483647 \<Longrightarrow>
   sorted_wrt (\<lambda>a b. sint a < sint b) (fst (run INVALID_FACEID ops t)) \<and>
   (\<forall>i \<in> set (fst (run INVALID_FACEID ops t)). sint (m_lastFaceId t) < sint i)"
proof (induction ops arbitrary: t)
  case Nil
  show ?case by simp
next
  case (Cons op ops)
  show ?case
  proof (cases op)
    case (Add face)
    with Cons.prems have room: "sint (m_lastFaceId t) < 2147483647"
      and rest: "sint (m_lastFaceId t) + 1 + int (length (filter is_Add ops)) \<le> 2147483647"
      by simp_all
    have next_id: "sint (m_lastFaceId (add face t)) = sint (m_lastFaceId t) + 1"
      by (simp add: add_fields sint_succ [OF room])
    have ih: "sorted_wrt (\<lambda>a b. sint a < sint b) (fst (run INVALID_FACEID ops (add face t))) \<and>
        (\<forall>i \<in> set (fst (run INVALID_FACEID ops (add face t))).
           sint (m_lastFaceId (add face t)) < sint i)"
      by (rule Cons.IH) (simp add: next_id rest)
    have ids: "fst (run INVALID_FACEID (op # ops) t) =
        (m_lastFaceId t + 1) # fst (run INVALID_FACEID ops (add face t))"
      by (simp add: Add Let_def add_fields split: prod.splits)
    have first: "sint (m_lastFaceId t + 1) = sint (m_lastFaceId t) + 1"
      by (rule sint_succ [OF room])
    show ?thesis
      unfolding ids using ih by (auto simp: next_id first)
  next
    case (Remove face)
    with Cons.prems have "sint (m_lastFaceId (remove INVALID_FACEID face t)) +
        int (length (filter is_Add ops)) \<le> 2147483647"
      by (simp add: remove_fields)
    then show ?thesis
      using Cons.IH [of "remove INVALID_FACEID face t"] Remove by (simp add: remove_fields)
  qed
qed

lemma sorted_sint_distinct:
  "sorted_wrt (\<lambda>a b. sint a < sint b) (ids :: FaceId list) \<Longrightarrow> distinct ids"
  by (induction ids) auto

lemma run_append:
  "run INVALID_FACEID (xs @ ys) t =
     (fst (run INVALID_FACEID xs t) @ fst (run INVALID_FACEID ys (snd (run INVALID_FACEID xs t))),
      snd (run INVALID_FACEID ys (snd (run INVALID_FACEID xs t))))"
proof (induction xs arbitrary: t)
  case Nil
  show ?case by simp
next
  case (Cons op xs)
  show ?case
    by (cases op) (simp_all add: Cons.IH Let_def split: prod.splits)
qed

lemma run_add_remove_cycles:
  "length (fst (run INVALID_FACEID (concat (replicate n [Add f, Remove f])) t)) = n \<and>
   m_lastFaceId (snd (run INVALID_FACEID (concat (replicate n [Add f, Remove f])) t)) =
     m_lastFaceId t + of_nat n"
proof (induction n arbitrary: t)
  case 0
  show ?case by simp
next
  case (Suc n)
  show ?case
    using Suc.IH [of "remove INVALID_FACEID f (add f t)"]
    by (auto simp: Let_def add_fields remove_fields add.assoc split: prod.splits)
qed

lemma run_three_adds:
  "fst (run INVALID_FACEID [Add a, Add b, Add c] t) =
     [m_lastFaceId t + 1, m_lastFaceId t + 1 + 1, m_lastFaceId t + 1 + 1 + 1]"
  by (simp add: Let_def add_fields split: prod.splits)

lemma run_wraps:
  assumes "m_lastFaceId t = 0"
  shows "map sint (drop n (fst (run INVALID_FACEID
           (concat (replicate n [Add f, Remove f]) @ [Add a, Add b, Add c]) t))) =
         [sint (of_nat n + 1 :: FaceId), sint (of_nat n + 1 + 1 :: FaceId),
          sint (of_nat n + 1 + 1 + 1 :: FaceId)]"
proof -
  let ?cycles = "concat (replicate n [Add f, Remove f])"
  have len: "length (fst (run INVALID_FACEID ?cycles t)) = n"
    and last: "m_lastFaceId (snd (run INVALID_FACEID ?cycles t)) = of_nat n"
    using run_add_remove_cycles [of INVALID_FACEID n f t] assms by simp_all
  have "drop n (fst (run INVALID_FACEID (?cycles @ [Add a, Add b, Add c]) t)) =
      fst (run INVALID_FACEID [Add a, Add b, Add c] (snd (run INVALID_FACEID ?cycles t)))"
    unfolding run_append using len by simp
  then show ?thesis
    unfolding run_three_adds last by simp
qed

text \<open>
  C2, as stated, fails when the counter passes the greatest FaceId. With the sentinel -1, on
  the table as constructed, face 0 is added and removed 2147483646 times and then the new
  faces 0, 1 and 2 are added: the last three ids are 2147483647, -2147483648 and
  -2147483647. The second is smaller than the first and smaller than the sentinel.
\<close>

theorem faceids_wrap_counterexample:
  "map sint (drop 2147483646 (fst (run (- 1)
     (concat (replicate 2147483646 [Add 0, Remove 0]) @ [Add 0, Add 1, Add 2])
     (make_FaceTable (fresh_faces (- 1)) [])))) =
   [2147483647, - 2147483648, - 2147483647]"
proof -
  have start: "m_lastFaceId (make_FaceTable (fresh_faces (- 1)) []) = 0"
    by (simp add: make_FaceTable_def)
  have ids: "map sint (drop 2147483646 (fst (run (- 1)
     (concat (replicate 2147483646 [Add 0, Remove 0]) @ [Add 0, Add 1, Add 2])
     (make_FaceTable (fresh_faces (- 1)) [])))) =
     [sint (of_nat 2147483646 + 1 :: FaceId), sint (of_nat 2147483646 + 1 + 1 :: FaceId),
      sint (of_nat 2147483646 + 1 + 1 + 1 :: FaceId)]"
    by (rule run_wraps [OF start])
  show ?thesis
    unfolding ids by simp
qed

text \<open>
  C2, amended. For every sequence of \<^verbatim>\<open>add\<close> and \<^verbatim>\<open>remove\<close> calls on a face table,
  from any state of the table, that keeps the counter at or below the greatest FaceId
  2147483647 (the counter before the sequence plus the number of its \<^verbatim>\<open>add\<close> calls does
  not exceed it), the FaceIds that the \<^verbatim>\<open>add\<close> calls assign are strictly increasing in the
  order of the calls, pairwise different, greater than the counter before the sequence,
  which no id assigned earlier exceeds, and greater than \<^verbatim>\<open>INVALID_FACEID\<close> when that does
  not exceed the counter, as it is for the table as constructed and a sentinel that is not
  positive.
\<close>

theorem faceids_increasing_below_overflow:
  assumes "sint INVALID_FACEID \<le> sint (m_lastFaceId t)"
    and "sint (m_lastFaceId t) + int (length (filter is_Add ops)) \<le> 2147483647"
  shows "sorted_wrt (\<lambda>a b. sint a < sint b) (fst (run INVALID_FACEID ops t)) \<and>
         distinct (fst (run INVALID_FACEID ops t)) \<and>
         (\<forall>i \<in> set (fst (run INVALID_FACEID ops t)).
            sint INVALID_FACEID < sint i \<and> sint (m_lastFaceId t) < sint i)"
proof -
  have sorted: "sorted_wrt (\<lambda>a b. sint a < sint b) (fst (run INVALID_FACEID ops t))"
    and later: "\<forall>i \<in> set (fst (run INVALID_FACEID ops t)). sint (m_lastFaceId t) < sint i"
    using run_ids [OF assms(2), of INVALID_FACEID] by simp_all
  have "distinct (fst (run INVALID_FACEID ops t))"
    using sorted by (rule sorted_sint_distinct)
  moreover have "\<forall>i \<in> set (fst (run INVALID_FACEID ops t)).
      sint INVALID_FACEID < sint i \<and> sint (m_lastFaceId t) < sint i"
    using later assms(1) by auto
  ultimately show ?thesis
    using sorted by simp
qed

text \<open>
  With the sentinel -1, on the table as constructed: adding face 0, adding face 1, removing
  face 0 and adding face 0 again assigns the ids 1, 2 and 3.
\<close>

theorem faceids_increasing_below_overflow_witness:
  "fst (run (- 1) [Add 0, Add 1, Remove 0, Add 0] (make_FaceTable (fresh_faces (- 1)) [])) = [1, 2, 3] \<and>
   sorted_wrt (\<lambda>a b. sint a < sint b)
     (fst (run (- 1) [Add 0, Add 1, Remove 0, Add 0] (make_FaceTable (fresh_faces (- 1)) []))) \<and>
   distinct (fst (run (- 1) [Add 0, Add 1, Remove 0, Add 0] (make_FaceTable (fresh_faces (- 1)) [])))"
proof -
  let ?t = "make_FaceTable (fresh_faces (- 1)) []"
  have start: "sint (- 1 :: FaceId) \<le> sint (m_lastFaceId ?t)"
    by (simp add: make_FaceTable_def)
  have room: "sint (m_lastFaceId ?t) + int (length (filter is_Add [Add 0, Add 1, Remove 0, Add 0])) \<le>
      2147483647"
    by (simp add: make_FaceTable_def)
  note ids = faceids_increasing_below_overflow [OF start room]
  have "fst (run (- 1) [Add 0, Add 1, Remove 0, Add 0] ?t) = [1, 2, 3]"
    by (simp add: Let_def add_fields remove_fields make_FaceTable_def split: prod.splits)
  then show ?thesis
    using ids by simp
qed

lemma removeNextHopFromAllEntries_purges:
  "\<forall>entry \<in> set (removeNextHopFromAllEntries fib face). face \<notin> set (nextHops entry)"
  by (auto simp: removeNextHopFromAllEntries_def)

text \<open>
  C6. After \<^verbatim>\<open>remove(face)\<close>, for every face and every table, and so for every
  registered face: the id of the face is \<^verbatim>\<open>INVALID_FACEID\<close>, the map of the table has no
  entry for the former id of the face, both subscription lists of the face are empty, and
  the forwarding table is the result of \<^verbatim>\<open>removeNextHopFromAllEntries\<close> for the face, in
  which no entry has the face among its next hops.
\<close>

theorem remove_purges_face:
  "m_id (face_store (remove INVALID_FACEID face t) face) = INVALID_FACEID \<and>
   m_faces (remove INVALID_FACEID face t) (m_id (face_store t face)) = None \<and>
   onReceiveInterest (face_store (remove INVALID_FACEID face t) face) = [] \<and>
   onReceiveData (face_store (remove INVALID_FACEID face t) face) = [] \<and>
   m_fib (remove INVALID_FACEID face t) = removeNextHopFromAllEntries (m_fib t) face \<and>
   (\<forall>entry \<in> set (m_fib (remove INVALID_FACEID face t)). face \<notin> set (nextHops entry))"
proof -
  have "\<forall>entry \<in> set (m_fib (remove INVALID_FACEID face t)). face \<notin> set (nextHops entry)"
    unfolding remove_fields by (rule removeNextHopFromAllEntries_purges)
  then show ?thesis
    by (simp add: remove_fields)
qed

text \<open>
  With the sentinel -1: faces 0 and 1 are added to the table as constructed, whose
  forwarding table has an entry with next hops 0 and 1 and an entry with next hop 0. Face 0
  has id 1 and one subscription on each list; after its removal it has id -1 and no
  subscription, the table has no entry for id 1 and keeps face 1 at id 2, and the next hops
  are 1 and none.
\<close>

theorem remove_purges_face_witness:
  "m_id (face_store (add 1 (add 0 (make_FaceTable (fresh_faces (- 1))
       [\<lparr>prefix = ''/a'', nextHops = [0, 1]\<rparr>, \<lparr>prefix = ''/b'', nextHops = [0]\<rparr>]))) 0) = 1 \<and>
   onReceiveInterest (face_store (add 1 (add 0 (make_FaceTable (fresh_faces (- 1))
       [\<lparr>prefix = ''/a'', nextHops = [0, 1]\<rparr>, \<lparr>prefix = ''/b'', nextHops = [0]\<rparr>]))) 0) =
     [Forwarder_onInterest 0] \<and>
   m_id (face_store (remove (- 1) 0 (add 1 (add 0 (make_FaceTable (fresh_faces (- 1))
       [\<lparr>prefix = ''/a'', nextHops = [0, 1]\<rparr>, \<lparr>prefix = ''/b'', nextHops = [0]\<rparr>])))) 0) = - 1 \<and>
   onReceiveInterest (face_store (remove (- 1) 0 (add 1 (add 0 (make_FaceTable (fresh_faces (- 1))
       [\<lparr>prefix = ''/a'', nextHops = [0, 1]\<rparr>, \<lparr>prefix = ''/b'', nextHops = [0]\<rparr>])))) 0) = [] \<and>
   m_faces (remove (- 1) 0 (add 1 (add 0 (make_FaceTable (fresh_faces (- 1))
       [\<lparr>prefix = ''/a'', nextHops = [0, 1]\<rparr>, \<lparr>prefix = ''/b'', nextHops = [0]\<rparr>])))) 1 = None \<and>
   m_faces (remove (- 1) 0 (add 1 (add 0 (make_FaceTable (fresh_faces (- 1))
       [\<lparr>prefix = ''/a'', nextHops = [0, 1]\<rparr>, \<lparr>prefix = ''/b'', nextHops = [0]\<rparr>])))) 2 = Some 1 \<and>
   m_fib (remove (- 1) 0 (add 1 (add 0 (make_FaceTable (fresh_faces (- 1))
       [\<lparr>prefix = ''/a'', nextHops = [0, 1]\<rparr>, \<lparr>prefix = ''/b'', nextHops = [0]\<rparr>])))) =
     [\<lparr>prefix = ''/a'', nextHops = [1]\<rparr>, \<lparr>prefix = ''/b'', nextHops = []\<rparr>]"
proof -
  let ?fib = "[\<lparr>prefix = ''/a'', nextHops = [0, 1]\<rparr>, \<lparr>prefix = ''/b'', nextHops = [0]\<rparr>]"
  let ?t = "add 1 (add 0 (make_FaceTable (fresh_faces (- 1)) ?fib))"
  note purged = remove_purges_face [of "- 1" 0 ?t]
  have id0: "m_id (face_store ?t 0) = 1"
    by (simp add: add_def Let_def make_FaceTable_def)
  have sub0: "onReceiveInterest (face_store ?t 0) = [Forwarder_onInterest 0]"
    by (simp add: add_def Let_def make_FaceTable_def fresh_faces_def)
  have faces: "m_faces ?t = [1 \<mapsto> 0, 2 \<mapsto> 1]"
    by (simp add: add_def Let_def make_FaceTable_def)
  have fib: "m_fib ?t = ?fib"
    by (simp add: add_fields make_FaceTable_def)
  have 3: "m_id (face_store (remove (- 1) 0 ?t) 0) = - 1"
    using purged by (rule conjunct1)
  have 4: "onReceiveInterest (face_store (remove (- 1) 0 ?t) 0) = []"
    using purged by blast
  have 5: "m_faces (remove (- 1) 0 ?t) 1 = None"
    using purged id0 by simp
  have "m_faces (remove (- 1) 0 ?t) = (m_faces ?t)(m_id (face_store ?t 0) := None)"
    by (rule remove_fields(3))
  then have 6: "m_faces (remove (- 1) 0 ?t) 2 = Some 1"
    unfolding id0 faces by simp
  have "m_fib (remove (- 1) 0 ?t) = removeNextHopFromAllEntries (m_fib ?t) 0"
    using purged by blast
  then have "m_fib (remove (- 1) 0 ?t) = removeNextHopFromAllEntries ?fib 0"
    unfolding fib .
  then have 7: "m_fib (remove (- 1) 0 ?t) =
      [\<lparr>prefix = ''/a'', nextHops = [1]\<rparr>, \<lparr>prefix = ''/b'', nextHops = []\<rparr>]"
    by (simp add: removeNextHopFromAllEntries_def)
  show ?thesis
    by (rule conjI [OF id0 conjI [OF sub0 conjI [OF 3 conjI [OF 4 conjI [OF 5 conjI [OF 6 7]]]]]])
qed

end
